theory Spec2Isabelle
  imports Main
begin

section \<open>Data model (pkg/blaxel/client.go, pkg/blaxel/mcp_manager.go)\<close>

text \<open>
  Go strings are \<open>string\<close>, slices are lists, and a Go \<open>error\<close> is a value of the datatype
  \<open>error\<close> below: one constructor for each \<open>fmt.Errorf\<close> of the code, with the wrapped
  cause as an argument, and \<open>External\<close> for an error made outside the repository.

  Go's \<open>int\<close> and \<open>int64\<close> are \<open>int\<close>. The only arithmetic the code does on them is the
  increment of the loop counter of \<open>Run\<close>, which stays between 1 and \<open>maxIterations + 1\<close>;
  it would leave the range of a 64-bit \<open>int\<close> only for \<open>maxIterations\<close> equal to the largest
  \<open>int\<close>, after that many calls to the model.
\<close>

datatype error =
    External string
  | FailedToGetAIResponse int error
  | NoResponseChoices int
  | FailedToExecuteTool string int error
  | FailedToParseToolArguments error
  | NoServerFoundForTool string
  | FailedToCallTool string error
  | FailedToMarshalToolResult error
  | MCPServerNotFound string
  | FailedToListTools error

text \<open>
  A value decoded by \<open>encoding/json\<close> into \<open>interface{}\<close>. A number decodes to a float64;
  \<open>JNumber m e\<close> stands for \<open>m * 2 ^ e\<close>. The code never computes with it. A Go map
  \<open>map[string]interface{}\<close> is an association list.
\<close>

datatype json =
    JNull
  | JBool bool
  | JNumber int int
  | JString string
  | JArray "json list"
  | JObject "(string \<times> json) list"

record Function =
  Name :: string
  Description :: string
  Parameters :: "(string \<times> json) list"

record Tool =
  Type :: string
  Function :: Function

record ToolCallFunction =
  call_Name :: string
  Arguments :: string

record ToolCall =
  call_Id :: string
  call_Type :: string
  call_Function :: ToolCallFunction

record ChatMessage =
  Role :: string
  Content :: string
  ToolCalls :: "ToolCall list"
  ToolCallId :: string

text \<open>
  Of \<open>ChatCompletionRequest\<close> the fields \<open>Temperature\<close>, \<open>TopP\<close> (pointers to float64) and
  \<open>ToolChoice\<close> are left out: no code of the repository sets them.
\<close>

record ChatCompletionRequest =
  req_Model :: string
  Messages :: "ChatMessage list"
  MaxTokens :: "int option"
  Stream :: bool
  Tools :: "Tool list"

record Choice =
  Index :: int
  Message :: ChatMessage
  FinishReason :: string

record UsageInfo =
  PromptTokens :: int
  CompletionTokens :: int
  TotalTokens :: int

record ChatCompletionResponse =
  ID :: string
  Object :: string
  Created :: int
  Model :: string
  Choices :: "Choice list"
  Usage :: UsageInfo

text \<open>
  \<open>mcp.Tool\<close> of the MCP SDK: the three fields the repository reads. \<open>InputSchema\<close> is any Go
  value (type \<open>'s\<close>).
\<close>

record 's mcp_Tool =
  tool_Name :: string
  tool_Description :: string
  InputSchema :: 's

record 's ToolWithServer =
  Tool :: "'s mcp_Tool"
  ServerName :: string

text \<open>
  A connected MCP client (\<open>blaxelMCP.MCPClient\<close>) is outside the repository. Its calls reach
  a backend over the network: each takes the state of the outside world \<open>'w\<close> and returns the
  outcome with the new state. \<open>client_CallTool\<close> returns the \<open>Content\<close> of the
  \<open>CallToolResult\<close> (type \<open>'c\<close>).
\<close>

record ('w, 's, 'c) MCPClient =
  client_ListTools :: "'w \<Rightarrow> (error + 's mcp_Tool list) \<times> 'w"
  client_CallTool :: "string \<Rightarrow> json \<Rightarrow> 'w \<Rightarrow> (error + 'c) \<times> 'w"

text \<open>
  \<open>MCPManager.servers\<close> is a Go map. It is held as an association list with the keys in the
  order in which \<open>range\<close> visits them; Go leaves that order open, so a property of the
  manager is stated for every such list.
\<close>

record ('w, 's, 'c) MCPManager =
  servers :: "(string \<times> ('w, 's, 'c) MCPClient) list"
  headers :: "(string \<times> string) list"

text \<open>
  \<open>Client\<close>: of its fields the agent and the router use \<open>McpManager\<close> and, through
  \<open>CreateChatCompletion\<close>, the connection to the model. \<open>CreateChatCompletion\<close> serialises the
  request, posts it through the SDK and decodes the reply; as one call to the outside world
  it is the field \<open>CreateChatCompletion\<close> here.
\<close>

record ('w, 's, 'c) Client =
  Workspace :: string
  client_Model :: string
  McpManager :: "('w, 's, 'c) MCPManager"
  CreateChatCompletion :: "ChatCompletionRequest \<Rightarrow> 'w \<Rightarrow> (error + ChatCompletionResponse) \<times> 'w"

text \<open>
  The functions of \<open>encoding/json\<close>, \<open>fmt\<close> and \<open>time\<close> that the code calls, as parameters:
  \<open>json.Marshal\<close> of an input schema and of a tool result's content, \<open>json.Unmarshal\<close> into
  a \<open>map[string]interface{}\<close> and into an \<open>interface{}\<close>, and \<open>time.Now().Unix()\<close>.
\<close>

record ('w, 's, 'c) env =
  json_Marshal_schema :: "'s \<Rightarrow> error + string"
  json_Unmarshal_map :: "string \<Rightarrow> error + (string \<times> json) list"
  json_Unmarshal :: "string \<Rightarrow> error + json"
  json_Marshal_content :: "'c \<Rightarrow> error + string"
  time_Now_Unix :: "'w \<Rightarrow> int \<times> 'w"

section \<open>Tool manager (package agent)\<close>

record ToolManager =
  toolServerMap :: "string \<rightharpoonup> string"

definition NewToolManager :: ToolManager where
  "NewToolManager = \<lparr>toolServerMap = Map.empty\<rparr>"

definition empty_object_schema :: "(string \<times> json) list" where
  "empty_object_schema = [(''type'', JString ''object''), (''properties'', JObject [])]"

definition convertParameters :: "('w, 's, 'c) env \<Rightarrow> 's \<Rightarrow> (string \<times> json) list" where
  "convertParameters e inputSchema =
     (case json_Marshal_schema e inputSchema of
        Inl err \<Rightarrow> empty_object_schema
      | Inr jsonBytes \<Rightarrow>
          (case json_Unmarshal_map e jsonBytes of
             Inl err \<Rightarrow> empty_object_schema
           | Inr result \<Rightarrow> result))"

text \<open>
  The loop of \<open>ConvertMCPToolsToOpenAI\<close> over the catalog, with the two variables it
  updates: the slice \<open>openAITools\<close> and the map \<open>tm.toolServerMap\<close>.
\<close>

fun convert_loop ::
  "('w, 's, 'c) env \<Rightarrow> 's ToolWithServer list \<Rightarrow> Tool list \<Rightarrow> ToolManager \<Rightarrow> Tool list \<times> ToolManager"
where
  "convert_loop e [] openAITools tm = (openAITools, tm)"
| "convert_loop e (toolWithServer # rest) openAITools tm =
     (let mcpTool = Tool toolWithServer;
          serverName = ServerName toolWithServer;
          tm' = tm\<lparr>toolServerMap := (toolServerMap tm)(tool_Name mcpTool \<mapsto> serverName)\<rparr>;
          description = tool_Description mcpTool;
          openAITool = \<lparr>Type = ''function'',
                        Function = \<lparr>Name = tool_Name mcpTool,
                                     Description = description,
                                     Parameters = convertParameters e (InputSchema mcpTool)\<rparr>\<rparr>
      in convert_loop e rest (openAITools @ [openAITool]) tm')"

definition ConvertMCPToolsToOpenAI ::
  "('w, 's, 'c) env \<Rightarrow> ToolManager \<Rightarrow> 's ToolWithServer list \<Rightarrow> Tool list \<times> ToolManager"
where
  "ConvertMCPToolsToOpenAI e tm mcpToolsWithServer =
     convert_loop e mcpToolsWithServer [] (tm\<lparr>toolServerMap := Map.empty\<rparr>)"

text \<open>Go's two results \<open>(serverName, exists)\<close>; a missing key gives the zero string.\<close>

definition GetServerForTool :: "ToolManager \<Rightarrow> string \<Rightarrow> string \<times> bool" where
  "GetServerForTool tm toolName =
     (case toolServerMap tm toolName of
        None \<Rightarrow> ('''', False)
      | Some serverName \<Rightarrow> (serverName, True))"

section \<open>MCP manager (pkg/blaxel/mcp_manager.go)\<close>

text \<open>
  \<open>ListAllTools\<close>: the \<open>range\<close> over \<open>m.servers\<close>. Beside the slice \<open>allTools\<close> the loop
  carries a record \<open>listed\<close> of the \<open>ListTools\<close> calls it has made, each with its outcome;
  the code has no such variable, it is what an observer of the backends sees. The warning
  written to the log for a failed backend is not part of the model.
\<close>

fun ListAllTools_loop ::
  "(string \<times> ('w, 's, 'c) MCPClient) list \<Rightarrow> 's ToolWithServer list \<Rightarrow>
   (string \<times> (error + 's mcp_Tool list)) list \<Rightarrow> 'w \<Rightarrow>
   's ToolWithServer list \<times> (string \<times> (error + 's mcp_Tool list)) list \<times> 'w"
where
  "ListAllTools_loop [] allTools listed w = (allTools, listed, w)"
| "ListAllTools_loop ((serverName, client) # rest) allTools listed w =
     (case client_ListTools client w of
        (Inl err, w') \<Rightarrow> ListAllTools_loop rest allTools (listed @ [(serverName, Inl err)]) w'
      | (Inr ts, w') \<Rightarrow>
          ListAllTools_loop rest
            (allTools @ map (\<lambda>tool. \<lparr>Tool = tool, ServerName = serverName\<rparr>) ts)
            (listed @ [(serverName, Inr ts)]) w')"

text \<open>The two Go results \<open>(allTools, err)\<close>, then the record of calls and the new world.\<close>

definition ListAllTools ::
  "('w, 's, 'c) MCPManager \<Rightarrow> 'w \<Rightarrow>
   ('s ToolWithServer list \<times> error option) \<times> (string \<times> (error + 's mcp_Tool list)) list \<times> 'w"
where
  "ListAllTools m w =
     (case ListAllTools_loop (servers m) [] [] w of
        (allTools, listed, w') \<Rightarrow> ((allTools, None), listed, w'))"

definition CallTool ::
  "('w, 's, 'c) MCPManager \<Rightarrow> string \<Rightarrow> string \<Rightarrow> json \<Rightarrow> 'w \<Rightarrow> (error + 'c) \<times> 'w"
where
  "CallTool m serverName toolName params w =
     (case map_of (servers m) serverName of
        None \<Rightarrow> (Inl (MCPServerNotFound serverName), w)
      | Some client \<Rightarrow> client_CallTool client toolName params w)"

section \<open>Agent (pkg/agent/agent.go)\<close>

record ('w, 's, 'c) Agent =
  name :: string
  model :: string
  tools :: "Tool list"
  blaxelClient :: "('w, 's, 'c) Client"
  systemPrompt :: string
  maxIterations :: int
  toolManager :: ToolManager

record Config =
  cfg_Name :: string
  cfg_Model :: string
  cfg_SystemPrompt :: string
  cfg_MaxIterations :: int

definition NewAgent :: "Config \<Rightarrow> ('w, 's, 'c) Client \<Rightarrow> ('w, 's, 'c) Agent" where
  "NewAgent config client =
     (let maxIterations0 = cfg_MaxIterations config;
          maxIterations1 = (if maxIterations0 \<le> 0 then 10 else maxIterations0);
          systemPrompt0 = cfg_SystemPrompt config;
          systemPrompt1 =
            (if systemPrompt0 = ''''
             then ''You are a helpful AI assistant. Use the available tools when needed to help answer user questions.''
             else systemPrompt0)
      in \<lparr>name = cfg_Name config,
          model = cfg_Model config,
          tools = [],
          blaxelClient = client,
          systemPrompt = systemPrompt1,
          maxIterations = maxIterations1,
          toolManager = NewToolManager\<rparr>)"

definition SetTools :: "('w, 's, 'c) Agent \<Rightarrow> Tool list \<Rightarrow> ('w, 's, 'c) Agent" where
  "SetTools a ts = a\<lparr>tools := ts\<rparr>"

definition SetToolManager :: "('w, 's, 'c) Agent \<Rightarrow> ToolManager \<Rightarrow> ('w, 's, 'c) Agent" where
  "SetToolManager a tm = a\<lparr>toolManager := tm\<rparr>"

definition SetSystemPrompt :: "('w, 's, 'c) Agent \<Rightarrow> string \<Rightarrow> ('w, 's, 'c) Agent" where
  "SetSystemPrompt a prompt = a\<lparr>systemPrompt := prompt\<rparr>"

definition SetMaxIterations :: "('w, 's, 'c) Agent \<Rightarrow> int \<Rightarrow> ('w, 's, 'c) Agent" where
  "SetMaxIterations a m = a\<lparr>maxIterations := m\<rparr>"

subsection \<open>Executing one tool call\<close>

text \<open>\<open>var params interface{}\<close> starts as nil, which is \<open>JNull\<close>.\<close>

definition executeToolCall ::
  "('w, 's, 'c) Agent \<Rightarrow> ('w, 's, 'c) env \<Rightarrow> ToolCall \<Rightarrow> 'w \<Rightarrow> (error + string) \<times> 'w"
where
  "executeToolCall a e toolCall w =
     (case (if Arguments (call_Function toolCall) \<noteq> ''''
            then (case json_Unmarshal e (Arguments (call_Function toolCall)) of
                    Inl err \<Rightarrow> Inl (FailedToParseToolArguments err)
                  | Inr v \<Rightarrow> Inr v)
            else Inr JNull) of
        Inl err \<Rightarrow> (Inl err, w)
      | Inr params \<Rightarrow>
          (case GetServerForTool (toolManager a) (call_Name (call_Function toolCall)) of
             (serverName, exists) \<Rightarrow>
               if \<not> exists
               then (Inl (NoServerFoundForTool (call_Name (call_Function toolCall))), w)
               else
                 (case CallTool (McpManager (blaxelClient a)) serverName
                         (call_Name (call_Function toolCall)) params w of
                    (Inl err, w') \<Rightarrow>
                      (Inl (FailedToCallTool (call_Name (call_Function toolCall)) err), w')
                  | (Inr toolResult_Content, w') \<Rightarrow>
                      (case json_Marshal_content e toolResult_Content of
                         Inl err \<Rightarrow> (Inl (FailedToMarshalToolResult err), w')
                       | Inr content \<Rightarrow> (Inr content, w')))))"

subsection \<open>The response for an exhausted budget\<close>

text \<open>\<open>%d\<close> of \<open>fmt.Sprintf\<close>: the decimal digits, with a minus sign below zero.\<close>

fun nat_decimal :: "nat \<Rightarrow> string" where
  "nat_decimal n =
     (if n < 10 then [char_of (48 + n)]
      else nat_decimal (n div 10) @ [char_of (48 + n mod 10)])"

definition int_decimal :: "int \<Rightarrow> string" where
  "int_decimal i = (if i < 0 then CHR ''-'' # nat_decimal (nat (- i)) else nat_decimal (nat i))"

text \<open>The clock is read twice, first for \<open>ID\<close>, then for \<open>Created\<close>.\<close>

definition createMaxIterationsResponse ::
  "('w, 's, 'c) Agent \<Rightarrow> ('w, 's, 'c) env \<Rightarrow> 'w \<Rightarrow> ChatCompletionResponse \<times> 'w"
where
  "createMaxIterationsResponse a e w =
     (case time_Now_Unix e w of
        (t1, w1) \<Rightarrow>
          (case time_Now_Unix e w1 of
             (t2, w2) \<Rightarrow>
               (\<lparr>ID = ''agent-'' @ name a @ ''-'' @ int_decimal t1,
                 Object = ''chat.completion'',
                 Created = t2,
                 Model = model a,
                 Choices =
                   [\<lparr>Index = 0,
                     Message = \<lparr>Role = ''assistant'',
                                Content = ''Maximum iterations reached. The agent may not have completed the task.'',
                                ToolCalls = [],
                                ToolCallId = ''''\<rparr>,
                     FinishReason = ''length''\<rparr>],
                 Usage = \<lparr>PromptTokens = 0, CompletionTokens = 0, TotalTokens = 0\<rparr>\<rparr>,
                w2)))"

subsection \<open>The agent loop\<close>

text \<open>
  The state of \<open>Run\<close>: the local slice \<open>messages\<close> and the outside world, and two records
  that the code does not keep but an observer can: \<open>model_calls\<close>, the requests passed to
  \<open>CreateChatCompletion\<close>, and \<open>tool_execs\<close>, the tool calls passed to \<open>executeToolCall\<close>,
  both in the order of the calls. What \<open>Run\<close> prints is not part of the model.
\<close>

record 'w loop_state =
  messages :: "ChatMessage list"
  world :: 'w
  model_calls :: "ChatCompletionRequest list"
  tool_execs :: "ToolCall list"

text \<open>
  The inner loop over \<open>assistantMessage.ToolCalls\<close>: \<open>Some err\<close> is the early return of
  \<open>Run\<close> with that error, \<open>None\<close> the end of the range.
\<close>

fun execute_tool_calls ::
  "('w, 's, 'c) Agent \<Rightarrow> ('w, 's, 'c) env \<Rightarrow> int \<Rightarrow> ToolCall list \<Rightarrow> 'w loop_state \<Rightarrow>
   error option \<times> 'w loop_state"
where
  "execute_tool_calls a e iteration [] st = (None, st)"
| "execute_tool_calls a e iteration (toolCall # rest) st =
     (case executeToolCall a e toolCall (world st) of
        (Inl err, w') \<Rightarrow>
          (Some (FailedToExecuteTool (call_Name (call_Function toolCall)) iteration err),
           st\<lparr>world := w', tool_execs := tool_execs st @ [toolCall]\<rparr>)
      | (Inr toolResult, w') \<Rightarrow>
          execute_tool_calls a e iteration rest
            (st\<lparr>messages := messages st @
                    [\<lparr>Role = ''tool'', Content = toolResult, ToolCalls = [],
                      ToolCallId = call_Id toolCall\<rparr>],
                world := w',
                tool_execs := tool_execs st @ [toolCall]\<rparr>))"

function Run_loop ::
  "('w, 's, 'c) Agent \<Rightarrow> ('w, 's, 'c) env \<Rightarrow> int \<Rightarrow> 'w loop_state \<Rightarrow>
   (error + ChatCompletionResponse) \<times> 'w loop_state"
where
  "Run_loop a e iteration st =
     (if iteration \<le> maxIterations a
      then
        (let req = \<lparr>req_Model = '''', Messages = messages st, MaxTokens = None,
                    Stream = False, Tools = tools a\<rparr>
         in case CreateChatCompletion (blaxelClient a) req (world st) of
              (Inl err, w') \<Rightarrow>
                (Inl (FailedToGetAIResponse iteration err),
                 st\<lparr>world := w', model_calls := model_calls st @ [req]\<rparr>)
            | (Inr resp, w') \<Rightarrow>
                (case Choices resp of
                   [] \<Rightarrow>
                     (Inl (NoResponseChoices iteration),
                      st\<lparr>world := w', model_calls := model_calls st @ [req]\<rparr>)
                 | choice # _ \<Rightarrow>
                     (let assistantMessage = Message choice;
                          st1 = st\<lparr>messages := messages st @ [assistantMessage],
                                   world := w',
                                   model_calls := model_calls st @ [req]\<rparr>
                      in if ToolCalls assistantMessage \<noteq> []
                         then
                           (case execute_tool_calls a e iteration (ToolCalls assistantMessage) st1 of
                              (Some err, st2) \<Rightarrow> (Inl err, st2)
                            | (None, st2) \<Rightarrow> Run_loop a e (iteration + 1) st2)
                         else (Inr resp, st1))))
      else
        (case createMaxIterationsResponse a e (world st) of
           (resp, w') \<Rightarrow> (Inr resp, st\<lparr>world := w'\<rparr>)))"
  by pat_completeness auto
termination
  by (relation "measure (\<lambda>(a, e, iteration, st). nat (maxIterations a + 1 - iteration))") auto

declare Run_loop.simps [simp del]

definition Run ::
  "('w, 's, 'c) Agent \<Rightarrow> ('w, 's, 'c) env \<Rightarrow> string \<Rightarrow> 'w \<Rightarrow>
   (error + ChatCompletionResponse) \<times> 'w loop_state"
where
  "Run a e userInput w =
     Run_loop a e 1
       \<lparr>messages =
          [\<lparr>Role = ''system'', Content = systemPrompt a, ToolCalls = [], ToolCallId = ''''\<rparr>,
           \<lparr>Role = ''user'', Content = userInput, ToolCalls = [], ToolCallId = ''''\<rparr>],
        world = w,
        model_calls = [],
        tool_execs = []\<rparr>"

section \<open>Router (package router): listing the tools\<close>

text \<open>
  Of the gin context the handler uses \<open>c.Error\<close>, which appends to \<open>c.Errors\<close>, and
  \<open>c.JSON\<close>, which writes a status and a body.
\<close>

record 's gin_Context =
  Errors :: "error list"
  written :: "(int \<times> 's ToolWithServer list \<times> int) option"

definition listTools ::
  "('w, 's, 'c) Client \<Rightarrow> 's gin_Context \<Rightarrow> 'w \<Rightarrow> 's gin_Context \<times> 'w"
where
  "listTools blaxel_client c w =
     (case ListAllTools (McpManager blaxel_client) w of
        ((ts, Some err), listed, w') \<Rightarrow> (c\<lparr>Errors := Errors c @ [FailedToListTools err]\<rparr>, w')
      | ((ts, None), listed, w') \<Rightarrow> (c\<lparr>written := Some (200, ts, int (length ts))\<rparr>, w'))"

section \<open>Notions for the statements\<close>

text \<open>
  None of the definitions of this section is code of the repository; the properties of the
  code are stated with them.

  A turn is an assistant message with the results of the tool calls executed for it, in the
  order of the calls. Its messages are the assistant message and, for each result, the tool
  message that \<open>Run\<close> appends: the result as content, the id of the call as \<open>ToolCallId\<close>.
\<close>

definition turn_messages :: "ChatMessage \<times> string list \<Rightarrow> ChatMessage list" where
  "turn_messages t =
     fst t #
     map (\<lambda>(toolCall, toolResult).
            \<lparr>Role = ''tool'', Content = toolResult, ToolCalls = [], ToolCallId = call_Id toolCall\<rparr>)
         (zip (ToolCalls (fst t)) (snd t))"

text \<open>
  The heads of the turns come from the model: the head of turn \<open>k\<close> is the message of the
  first choice of a reply that \<open>CreateChatCompletion\<close> gives to the request carrying the
  conversation \<open>init\<close> followed by the first \<open>k\<close> turns.
\<close>

definition heads_from_gateway ::
  "('w, 's, 'c) Agent \<Rightarrow> ChatMessage list \<Rightarrow> (ChatMessage \<times> string list) list \<Rightarrow> bool"
where
  "heads_from_gateway a init turns =
     (\<forall>k<length turns. \<exists>w0 resp w1 choice cs.
        CreateChatCompletion (blaxelClient a)
          \<lparr>req_Model = '''', Messages = init @ concat (map turn_messages (take k turns)),
           MaxTokens = None, Stream = False, Tools = tools a\<rparr> w0 = (Inr resp, w1) \<and>
        Choices resp = choice # cs \<and> fst (turns ! k) = Message choice)"

text \<open>The results of a turn come from the backends: the j-th is an outcome of its j-th call.\<close>

definition results_from_calls ::
  "('w, 's, 'c) Agent \<Rightarrow> ('w, 's, 'c) env \<Rightarrow> (ChatMessage \<times> string list) list \<Rightarrow> bool"
where
  "results_from_calls a e turns =
     (\<forall>t\<in>set turns. \<forall>j<length (snd t). \<exists>w0 w1.
        executeToolCall a e (ToolCalls (fst t) ! j) w0 = (Inr (snd t ! j), w1))"

text \<open>
  What the backends of a pool answer when each is asked once for its tools, one after the
  other in the order of the list, starting in the world \<open>w\<close>: the name of each backend with
  the outcome of its \<open>ListTools\<close>.
\<close>

fun backend_listings ::
  "(string \<times> ('w, 's, 'c) MCPClient) list \<Rightarrow> 'w \<Rightarrow> (string \<times> (error + 's mcp_Tool list)) list"
where
  "backend_listings [] w = []"
| "backend_listings ((serverName, client) # rest) w =
     (case client_ListTools client w of
        (r, w') \<Rightarrow> (serverName, r) # backend_listings rest w')"

section \<open>A small deployment\<close>

text \<open>
  One concrete deployment, on which the definitions can be run: the world is a counter of
  the calls made to the outside, the pool has a backend that lists one tool and a backend
  that fails, and the model gateway is a parameter.
\<close>

definition ex_env :: "(nat, string, string) env" where
  "ex_env =
     \<lparr>json_Marshal_schema = (\<lambda>s. if s = ''cyclic'' then Inl (External ''unsupported value'') else Inr s),
      json_Unmarshal_map =
        (\<lambda>b. if b = ''{}'' then Inr [] else Inl (External ''cannot unmarshal into map'')),
      json_Unmarshal =
        (\<lambda>b. if b = ''{}'' then Inr (JObject []) else Inl (External ''invalid character'')),
      json_Marshal_content = (\<lambda>c. Inr c),
      time_Now_Unix = (\<lambda>w. (1700000000 + int w, Suc w))\<rparr>"

definition ex_search :: "(nat, string, string) MCPClient" where
  "ex_search =
     \<lparr>client_ListTools =
        (\<lambda>w. (Inr [\<lparr>tool_Name = ''web_search'', tool_Description = ''Search the web'',
                     InputSchema = ''{}''\<rparr>], Suc w)),
      client_CallTool = (\<lambda>toolName params w. (Inr ''[]'', Suc w))\<rparr>"

definition ex_broken :: "(nat, string, string) MCPClient" where
  "ex_broken =
     \<lparr>client_ListTools = (\<lambda>w. (Inl (External ''connection refused''), Suc w)),
      client_CallTool = (\<lambda>toolName params w. (Inl (External ''connection refused''), Suc w))\<rparr>"

definition ex_manager :: "(nat, string, string) MCPManager" where
  "ex_manager = \<lparr>servers = [(''blaxel-search'', ex_search), (''broken'', ex_broken)], headers = []\<rparr>"

definition ex_manager_broken_first :: "(nat, string, string) MCPManager" where
  "ex_manager_broken_first =
     \<lparr>servers = [(''broken'', ex_broken), (''blaxel-search'', ex_search)], headers = []\<rparr>"

definition ex_call :: "string \<Rightarrow> ToolCall" where
  "ex_call args =
     \<lparr>call_Id = ''call_1'', call_Type = ''function'',
      call_Function = \<lparr>call_Name = ''web_search'', Arguments = args\<rparr>\<rparr>"

definition ex_reply :: "ToolCall list \<Rightarrow> ChatCompletionResponse" where
  "ex_reply calls =
     \<lparr>ID = ''chatcmpl-1'', Object = ''chat.completion'', Created = 1700000000, Model = ''gpt-4o-mini'',
      Choices = [\<lparr>Index = 0,
                  Message = \<lparr>Role = ''assistant'', Content = ''4'', ToolCalls = calls, ToolCallId = ''''\<rparr>,
                  FinishReason = (if calls = [] then ''stop'' else ''tool_calls'')\<rparr>],
      Usage = \<lparr>PromptTokens = 12, CompletionTokens = 1, TotalTokens = 13\<rparr>\<rparr>"

definition ex_client ::
  "(ChatCompletionRequest \<Rightarrow> nat \<Rightarrow> (error + ChatCompletionResponse) \<times> nat) \<Rightarrow> (nat, string, string) Client"
where
  "ex_client gateway =
     \<lparr>Workspace = ''main'', client_Model = ''sandbox-openai'', McpManager = ex_manager,
      CreateChatCompletion = gateway\<rparr>"

definition ex_config :: "int \<Rightarrow> Config" where
  "ex_config n =
     \<lparr>cfg_Name = ''demo-agent'', cfg_Model = ''gpt-4o-mini'',
      cfg_SystemPrompt = ''You are helpful.'', cfg_MaxIterations = n\<rparr>"

definition ex_agent ::
  "(ChatCompletionRequest \<Rightarrow> nat \<Rightarrow> (error + ChatCompletionResponse) \<times> nat) \<Rightarrow> int \<Rightarrow> (nat, string, string) Agent"
where
  "ex_agent gateway n =
     (case ListAllTools ex_manager 0 of
        ((mcpTools, err), listed, w) \<Rightarrow>
          (case ConvertMCPToolsToOpenAI ex_env NewToolManager mcpTools of
             (ts, tm) \<Rightarrow>
               SetToolManager (SetTools (NewAgent (ex_config n) (ex_client gateway)) ts) tm))"

definition ex_final_gateway ::
  "ChatCompletionRequest \<Rightarrow> nat \<Rightarrow> (error + ChatCompletionResponse) \<times> nat"
where
  "ex_final_gateway req w = (Inr (ex_reply []), Suc w)"

definition ex_tool_gateway ::
  "string \<Rightarrow> ChatCompletionRequest \<Rightarrow> nat \<Rightarrow> (error + ChatCompletionResponse) \<times> nat"
where
  "ex_tool_gateway args req w = (Inr (ex_reply [ex_call args]), Suc w)"

definition ex_entry :: "string \<Rightarrow> string \<Rightarrow> string \<Rightarrow> string ToolWithServer" where
  "ex_entry n schema server =
     \<lparr>Tool = \<lparr>tool_Name = n, tool_Description = ''Tool '' @ n, InputSchema = schema\<rparr>,
      ServerName = server\<rparr>"

definition ex_old_catalog :: "string ToolWithServer list" where
  "ex_old_catalog = [ex_entry ''get_weather'' ''{}'' ''weather'']"

definition ex_catalog :: "string ToolWithServer list" where
  "ex_catalog =
     [ex_entry ''web_search'' ''{}'' ''blaxel-search'',
      ex_entry ''calc'' ''cyclic'' ''math'',
      ex_entry ''web_search'' ''[]'' ''mirror'']"

definition ex_call_2 :: ToolCall where
  "ex_call_2 =
     \<lparr>call_Id = ''call_2'', call_Type = ''function'',
      call_Function = \<lparr>call_Name = ''web_search'', Arguments = ''{city''\<rparr>\<rparr>"

definition ex_two_calls_gateway ::
  "ChatCompletionRequest \<Rightarrow> nat \<Rightarrow> (error + ChatCompletionResponse) \<times> nat"
where
  "ex_two_calls_gateway req w = (Inr (ex_reply [ex_call ''{}'', ex_call_2]), Suc w)"

definition ex_tool_then_final_gateway ::
  "ChatCompletionRequest \<Rightarrow> nat \<Rightarrow> (error + ChatCompletionResponse) \<times> nat"
where
  "ex_tool_then_final_gateway req w =
     (if length (Messages req) \<le> 2 then (Inr (ex_reply [ex_call ''{}'']), Suc w)
      else (Inr (ex_reply []), Suc w))"

section \<open>Facts about the deployment\<close>

lemmas ex_defs = ex_env_def ex_search_def ex_broken_def ex_manager_def ex_call_def ex_reply_def
  ex_client_def ex_config_def ex_agent_def
  ex_final_gateway_def ex_tool_gateway_def

lemma ex_agent_eq:
  "ex_agent g n =
     \<lparr>name = ''demo-agent'', model = ''gpt-4o-mini'',
      tools = [\<lparr>Type = ''function'',
                Function = \<lparr>Name = ''web_search'', Description = ''Search the web'',
                             Parameters = []\<rparr>\<rparr>],
      blaxelClient = ex_client g,
      systemPrompt = ''You are helpful.'',
      maxIterations = (if n \<le> 0 then 10 else n),
      toolManager = \<lparr>toolServerMap = [''web_search'' \<mapsto> ''blaxel-search'']\<rparr>\<rparr>"
  by (simp add: ex_agent_def ex_manager_def ex_search_def ex_broken_def ex_env_def ex_config_def
      ListAllTools_def ConvertMCPToolsToOpenAI_def NewAgent_def SetTools_def SetToolManager_def
      NewToolManager_def convertParameters_def Let_def)


section \<open>The tool manager\<close>

lemma convert_loop_tools:
  "fst (convert_loop e cat acc tm) =
     acc @ map (\<lambda>x. \<lparr>Type = ''function'',
                      Function = \<lparr>Name = tool_Name (Tool x),
                                   Description = tool_Description (Tool x),
                                   Parameters = convertParameters e (InputSchema (Tool x))\<rparr>\<rparr>) cat"
  by (induction cat arbitrary: acc tm) (simp_all add: Let_def)

lemma convert_loop_map:
  "toolServerMap (snd (convert_loop e cat acc tm)) =
     toolServerMap tm ++ map_of (rev (map (\<lambda>x. (tool_Name (Tool x), ServerName x)) cat))"
  by (induction cat arbitrary: acc tm) (simp_all add: Let_def)

lemma map_of_rev_last:
  assumes "cat = pre @ x # post" and "\<forall>y\<in>set post. f y \<noteq> f x"
  shows "map_of (rev (map (\<lambda>x. (f x, g x)) cat)) (f x) = Some (g x)"
proof -
  have "map_of (rev (map (\<lambda>x. (f x, g x)) post)) (f x) = None"
    using assms(2) by (auto simp: map_of_eq_None_iff image_image)
  then show ?thesis
    by (simp add: assms(1) map_add_def)
qed

text \<open>
  C4. After \<open>ConvertMCPToolsToOpenAI\<close>, whatever the tool manager held before (the map of
  an earlier build included), \<open>GetServerForTool\<close> finds exactly the tool names of the
  catalog just converted; a name outside it gives the zero string and \<open>false\<close>, and a name
  carried by several entries gives the backend of the last of them.
\<close>

theorem registry_rebuilt_from_catalog:
  assumes "ConvertMCPToolsToOpenAI e tm catalog = (ts, tm')"
  shows "(\<forall>n. snd (GetServerForTool tm' n) = (n \<in> (\<lambda>x. tool_Name (Tool x)) ` set catalog)) \<and>
         (\<forall>n. n \<notin> (\<lambda>x. tool_Name (Tool x)) ` set catalog \<longrightarrow> GetServerForTool tm' n = ('''', False)) \<and>
         (\<forall>pre x post.
            catalog = pre @ x # post \<and> (\<forall>y\<in>set post. tool_Name (Tool y) \<noteq> tool_Name (Tool x)) \<longrightarrow>
            GetServerForTool tm' (tool_Name (Tool x)) = (ServerName x, True))"
proof -
  have m: "toolServerMap tm' = map_of (rev (map (\<lambda>x. (tool_Name (Tool x), ServerName x)) catalog))"
    using assms convert_loop_map[of e catalog "[]" "tm\<lparr>toolServerMap := Map.empty\<rparr>"]
    by (simp add: ConvertMCPToolsToOpenAI_def)
  have d: "(toolServerMap tm' n = None) = (n \<notin> (\<lambda>x. tool_Name (Tool x)) ` set catalog)" for n
    by (simp add: m map_of_eq_None_iff image_image)
  have 1: "snd (GetServerForTool tm' n) = (n \<in> (\<lambda>x. tool_Name (Tool x)) ` set catalog)" for n
    using d[of n] by (auto simp: GetServerForTool_def split: option.splits)
  have 2: "GetServerForTool tm' n = ('''', False)"
    if "n \<notin> (\<lambda>x. tool_Name (Tool x)) ` set catalog" for n
    using d[of n] that by (simp add: GetServerForTool_def)
  have 3: "GetServerForTool tm' (tool_Name (Tool x)) = (ServerName x, True)"
    if "catalog = pre @ x # post" "\<forall>y\<in>set post. tool_Name (Tool y) \<noteq> tool_Name (Tool x)"
    for pre x post
    using map_of_rev_last[OF that, of ServerName] by (simp add: GetServerForTool_def m)
  from 1 2 3 show ?thesis by blast
qed

text \<open>
  C7. \<open>ConvertMCPToolsToOpenAI\<close> returns one tool for each catalog entry, in order, of type
  "function", with the entry's name and description. Its parameters are the input schema
  serialised and read back as an object; when either step fails they are the object with
  \<open>type\<close> "object" and empty \<open>properties\<close>.
\<close>

theorem converted_tool_fields:
  assumes "ConvertMCPToolsToOpenAI e tm catalog = (ts, tm')"
  shows "length ts = length catalog \<and>
         (\<forall>i < length catalog.
            Type (ts ! i) = ''function'' \<and>
            Name (Function (ts ! i)) = tool_Name (Tool (catalog ! i)) \<and>
            Description (Function (ts ! i)) = tool_Description (Tool (catalog ! i)) \<and>
            Parameters (Function (ts ! i)) =
              (case json_Marshal_schema e (InputSchema (Tool (catalog ! i))) of
                 Inl err \<Rightarrow> [(''type'', JString ''object''), (''properties'', JObject [])]
               | Inr b \<Rightarrow>
                   (case json_Unmarshal_map e b of
                      Inl err \<Rightarrow> [(''type'', JString ''object''), (''properties'', JObject [])]
                    | Inr r \<Rightarrow> r)))"
proof -
  have ts: "ts = map (\<lambda>x. \<lparr>Type = ''function'',
                      Function = \<lparr>Name = tool_Name (Tool x),
                                   Description = tool_Description (Tool x),
                                   Parameters = convertParameters e (InputSchema (Tool x))\<rparr>\<rparr>) catalog"
    using assms convert_loop_tools[of e catalog "[]" "tm\<lparr>toolServerMap := Map.empty\<rparr>"]
    by (simp add: ConvertMCPToolsToOpenAI_def)
  show ?thesis
    by (simp add: ts convertParameters_def empty_object_schema_def split: sum.splits)
qed


theorem registry_rebuilt_from_catalog_witness:
  "GetServerForTool
     (snd (ConvertMCPToolsToOpenAI ex_env
             (snd (ConvertMCPToolsToOpenAI ex_env NewToolManager ex_old_catalog)) ex_catalog))
     ''web_search'' = (''mirror'', True) \<and>
   GetServerForTool
     (snd (ConvertMCPToolsToOpenAI ex_env
             (snd (ConvertMCPToolsToOpenAI ex_env NewToolManager ex_old_catalog)) ex_catalog))
     ''get_weather'' = ('''', False)"
proof -
  let ?tm = "snd (ConvertMCPToolsToOpenAI ex_env NewToolManager ex_old_catalog)"
  let ?out = "ConvertMCPToolsToOpenAI ex_env ?tm ex_catalog"
  have h: "?out = (fst ?out, snd ?out)" by simp
  have c: "ex_catalog =
             [ex_entry ''web_search'' ''{}'' ''blaxel-search'', ex_entry ''calc'' ''cyclic'' ''math''] @
             ex_entry ''web_search'' ''[]'' ''mirror'' # [] \<and>
           (\<forall>y\<in>set []. tool_Name (Tool y) \<noteq> tool_Name (Tool (ex_entry ''web_search'' ''[]'' ''mirror'')))"
    by (simp add: ex_catalog_def)
  have n: "''get_weather'' \<notin> (\<lambda>x. tool_Name (Tool x)) ` set ex_catalog"
    by (simp add: ex_catalog_def ex_entry_def)
  from registry_rebuilt_from_catalog[OF h] c n
  have "GetServerForTool (snd ?out) (tool_Name (Tool (ex_entry ''web_search'' ''[]'' ''mirror''))) =
          (ServerName (ex_entry ''web_search'' ''[]'' ''mirror''), True)"
    and "GetServerForTool (snd ?out) ''get_weather'' = ('''', False)"
    by blast+
  then show ?thesis by (simp add: ex_entry_def)
qed

theorem converted_tool_fields_witness:
  "length (fst (ConvertMCPToolsToOpenAI ex_env NewToolManager ex_catalog)) = 3 \<and>
   Name (Function (fst (ConvertMCPToolsToOpenAI ex_env NewToolManager ex_catalog) ! 1)) = ''calc'' \<and>
   Description (Function (fst (ConvertMCPToolsToOpenAI ex_env NewToolManager ex_catalog) ! 1)) = ''Tool calc'' \<and>
   Parameters (Function (fst (ConvertMCPToolsToOpenAI ex_env NewToolManager ex_catalog) ! 0)) = [] \<and>
   Parameters (Function (fst (ConvertMCPToolsToOpenAI ex_env NewToolManager ex_catalog) ! 1)) =
     [(''type'', JString ''object''), (''properties'', JObject [])] \<and>
   Parameters (Function (fst (ConvertMCPToolsToOpenAI ex_env NewToolManager ex_catalog) ! 2)) =
     [(''type'', JString ''object''), (''properties'', JObject [])]"
proof -
  let ?out = "ConvertMCPToolsToOpenAI ex_env NewToolManager ex_catalog"
  have h: "?out = (fst ?out, snd ?out)" by simp
  have l: "length ex_catalog = 3" by (simp add: ex_catalog_def)
  from converted_tool_fields[OF h] l show ?thesis
    by (simp add: ex_catalog_def ex_entry_def ex_env_def)
qed

section \<open>The MCP manager and the tools route\<close>

lemma ListAllTools_loop_result:
  "ListAllTools_loop srv acc lst w = (ts, listed, w') \<Longrightarrow>
   \<exists>new. listed = lst @ new \<and> map fst new = map fst srv \<and>
     ts = acc @ concat (map (\<lambda>(n, r). case r of Inl err \<Rightarrow> []
                                  | Inr tls \<Rightarrow> map (\<lambda>t. \<lparr>Tool = t, ServerName = n\<rparr>) tls) new)"
proof (induction srv arbitrary: acc lst w)
  case Nil
  then show ?case by simp
next
  case (Cons p srv)
  obtain serverName client where p: "p = (serverName, client)" by (cases p)
  obtain r w1 where c: "client_ListTools client w = (r, w1)" by (cases "client_ListTools client w")
  show ?case
  proof (cases r)
    case (Inl err)
    with Cons.prems p c have "ListAllTools_loop srv acc (lst @ [(serverName, Inl err)]) w1 = (ts, listed, w')"
      by simp
    from Cons.IH[OF this] obtain new where
      "listed = (lst @ [(serverName, Inl err)]) @ new" "map fst new = map fst srv"
      "ts = acc @ concat (map (\<lambda>(n, r). case r of Inl err \<Rightarrow> []
                                  | Inr tls \<Rightarrow> map (\<lambda>t. \<lparr>Tool = t, ServerName = n\<rparr>) tls) new)"
      by blast
    then show ?thesis
      by (intro exI[of _ "(serverName, Inl err) # new"]) (simp add: p)
  next
    case (Inr tls)
    with Cons.prems p c have "ListAllTools_loop srv
        (acc @ map (\<lambda>t. \<lparr>Tool = t, ServerName = serverName\<rparr>) tls)
        (lst @ [(serverName, Inr tls)]) w1 = (ts, listed, w')"
      by simp
    from Cons.IH[OF this] obtain new where
      "listed = (lst @ [(serverName, Inr tls)]) @ new" "map fst new = map fst srv"
      "ts = (acc @ map (\<lambda>t. \<lparr>Tool = t, ServerName = serverName\<rparr>) tls) @
            concat (map (\<lambda>(n, r). case r of Inl err \<Rightarrow> []
                                  | Inr tls \<Rightarrow> map (\<lambda>t. \<lparr>Tool = t, ServerName = n\<rparr>) tls) new)"
      by blast
    then show ?thesis
      by (intro exI[of _ "(serverName, Inr tls) # new"]) (simp add: p)
  qed
qed

lemma ListAllTools_result:
  assumes "ListAllTools m w = ((allTools, err), listed, w')"
  shows "err = None" and "map fst listed = map fst (servers m)"
    and "allTools = concat (map (\<lambda>(n, r). case r of Inl err \<Rightarrow> []
                                  | Inr tls \<Rightarrow> map (\<lambda>t. \<lparr>Tool = t, ServerName = n\<rparr>) tls) listed)"
proof -
  obtain ts l w1 where l: "ListAllTools_loop (servers m) [] [] w = (ts, l, w1)"
    by (cases "ListAllTools_loop (servers m) [] [] w") auto
  with assms have eq: "allTools = ts" "err = None" "listed = l" "w' = w1"
    by (simp_all add: ListAllTools_def)
  from ListAllTools_loop_result[OF l] eq
  show "err = None" and "map fst listed = map fst (servers m)"
    and "allTools = concat (map (\<lambda>(n, r). case r of Inl err \<Rightarrow> []
                                  | Inr tls \<Rightarrow> map (\<lambda>t. \<lparr>Tool = t, ServerName = n\<rparr>) tls) listed)"
    by auto
qed

lemma ListAllTools_loop_listed:
  "ListAllTools_loop srv acc lst w = (ts, listed, w') \<Longrightarrow>
   listed = lst @ backend_listings srv w"
proof (induction srv arbitrary: acc lst w)
  case Nil
  then show ?case by simp
next
  case (Cons p srv)
  obtain serverName client where p: "p = (serverName, client)" by (cases p)
  obtain r w1 where c: "client_ListTools client w = (r, w1)" by (cases "client_ListTools client w")
  show ?case
  proof (cases r)
    case (Inl err)
    with Cons.prems p c have "ListAllTools_loop srv acc (lst @ [(serverName, Inl err)]) w1 = (ts, listed, w')"
      by simp
    from Cons.IH[OF this] show ?thesis by (simp add: p c Inl)
  next
    case (Inr tls)
    with Cons.prems p c have "ListAllTools_loop srv
        (acc @ map (\<lambda>t. \<lparr>Tool = t, ServerName = serverName\<rparr>) tls)
        (lst @ [(serverName, Inr tls)]) w1 = (ts, listed, w')"
      by simp
    from Cons.IH[OF this] show ?thesis by (simp add: p c Inr)
  qed
qed

lemma backend_listings_asks_each:
  "(n, c) \<in> set srv \<Longrightarrow> \<exists>wk. (n, fst (client_ListTools c wk)) \<in> set (backend_listings srv w)"
proof (induction srv arbitrary: w)
  case Nil
  then show ?case by simp
next
  case (Cons p srv)
  obtain serverName client where p: "p = (serverName, client)" by (cases p)
  obtain r w1 where l: "client_ListTools client w = (r, w1)" by (cases "client_ListTools client w")
  show ?case
  proof (cases "(n, c) = p")
    case True
    with p l show ?thesis by (intro exI[of _ w]) auto
  next
    case False
    with Cons.prems have "(n, c) \<in> set srv" by simp
    from Cons.IH[OF this, of w1] obtain wk where
      "(n, fst (client_ListTools c wk)) \<in> set (backend_listings srv w1)" ..
    then show ?thesis by (intro exI[of _ wk]) (simp add: p l)
  qed
qed

lemma backend_listings_only_asked:
  "(n, r) \<in> set (backend_listings srv w) \<Longrightarrow>
   \<exists>c wk. (n, c) \<in> set srv \<and> r = fst (client_ListTools c wk)"
proof (induction srv arbitrary: w)
  case Nil
  then show ?case by simp
next
  case (Cons p srv)
  obtain serverName client where p: "p = (serverName, client)" by (cases p)
  obtain r1 w1 where l: "client_ListTools client w = (r1, w1)" by (cases "client_ListTools client w")
  from Cons.prems p l have "(n, r) = (serverName, r1) \<or> (n, r) \<in> set (backend_listings srv w1)"
    by simp
  then show ?case
  proof
    assume "(n, r) = (serverName, r1)"
    with p l show ?thesis by (intro exI[of _ client] exI[of _ w]) simp
  next
    assume "(n, r) \<in> set (backend_listings srv w1)"
    from Cons.IH[OF this] show ?thesis by auto
  qed
qed

text \<open>
  C6. \<open>ListAllTools\<close> never fails, and its result holds exactly the tools that the backends
  of the pool list when each is asked once, in the order of the range: every tool of every
  backend whose \<open>ListTools\<close> succeeds, paired with the name of that backend, and nothing for
  a backend whose \<open>ListTools\<close> fails. In particular a backend that lists its tools whenever
  it is asked has all of them in the result, wherever it stands in the order and whatever
  the other backends do, and a backend that fails whenever it is asked has none.
\<close>

theorem ListAllTools_union_of_listed:
  assumes "ListAllTools m w = ((allTools, err), listed, w')"
  shows "err = None \<and>
         listed = backend_listings (servers m) w \<and>
         allTools =
           concat (map (\<lambda>(n, r). case r of Inl e1 \<Rightarrow> []
                                 | Inr tls \<Rightarrow> map (\<lambda>t. \<lparr>Tool = t, ServerName = n\<rparr>) tls)
                       (backend_listings (servers m) w)) \<and>
         set allTools =
           {\<lparr>Tool = t, ServerName = n\<rparr> | n tls t.
              (n, Inr tls) \<in> set (backend_listings (servers m) w) \<and> t \<in> set tls} \<and>
         (\<forall>n c tls t.
            (n, c) \<in> set (servers m) \<and> (\<forall>w0. \<exists>w1. client_ListTools c w0 = (Inr tls, w1)) \<and>
            t \<in> set tls \<longrightarrow>
            \<lparr>Tool = t, ServerName = n\<rparr> \<in> set allTools) \<and>
         (\<forall>n c.
            (n, c) \<in> set (servers m) \<and> distinct (map fst (servers m)) \<and>
            (\<forall>w0. \<exists>e1 w1. client_ListTools c w0 = (Inl e1, w1)) \<longrightarrow>
            (\<forall>x\<in>set allTools. ServerName x \<noteq> n))"
proof -
  obtain ts l w1 where loop: "ListAllTools_loop (servers m) [] [] w = (ts, l, w1)"
    by (cases "ListAllTools_loop (servers m) [] [] w") auto
  with assms have "listed = l" by (simp add: ListAllTools_def)
  with ListAllTools_loop_listed[OF loop] have L: "listed = backend_listings (servers m) w"
    by simp
  have s: "set (concat (map (\<lambda>(n, r). case r of Inl err \<Rightarrow> []
                                  | Inr tls \<Rightarrow> map (\<lambda>t. \<lparr>Tool = t, ServerName = n\<rparr>) tls) listed)) =
        {\<lparr>Tool = t, ServerName = n\<rparr> | n tls t. (n, Inr tls) \<in> set listed \<and> t \<in> set tls}"
    by (induction listed) (auto split: sum.splits)
  have "set allTools =
      {\<lparr>Tool = t, ServerName = n\<rparr> | n tls t. (n, Inr tls) \<in> set listed \<and> t \<in> set tls}"
    by (subst ListAllTools_result(3)[OF assms]) (rule s)
  with L have S: "set allTools =
      {\<lparr>Tool = t, ServerName = n\<rparr> | n tls t.
         (n, Inr tls) \<in> set (backend_listings (servers m) w) \<and> t \<in> set tls}"
    by simp
  have A: "\<lparr>Tool = t, ServerName = n\<rparr> \<in> set allTools"
    if "(n, c) \<in> set (servers m)" "\<forall>w0. \<exists>w1. client_ListTools c w0 = (Inr tls, w1)" "t \<in> set tls"
    for n c tls t
  proof -
    from backend_listings_asks_each[OF that(1), of w] obtain wk where
      "(n, fst (client_ListTools c wk)) \<in> set (backend_listings (servers m) w)" ..
    moreover from that(2) obtain w1 where "client_ListTools c wk = (Inr tls, w1)" by blast
    ultimately have "(n, Inr tls) \<in> set (backend_listings (servers m) w)" by simp
    with that(3) S show ?thesis by blast
  qed
  have B: "ServerName x \<noteq> n"
    if "(n, c) \<in> set (servers m)" "distinct (map fst (servers m))"
      "\<forall>w0. \<exists>e1 w1. client_ListTools c w0 = (Inl e1, w1)" "x \<in> set allTools"
    for n c x
  proof
    assume n: "ServerName x = n"
    from that(4) S obtain n' tls t where
      x: "x = \<lparr>Tool = t, ServerName = n'\<rparr>" "(n', Inr tls) \<in> set (backend_listings (servers m) w)"
      by blast
    from backend_listings_only_asked[OF x(2)] obtain c' wk where
      c': "(n', c') \<in> set (servers m)" "Inr tls = fst (client_ListTools c' wk)"
      by blast
    from n x(1) have "n' = n" by simp
    with c'(1) that(1,2) have "c' = c"
      by (meson eq_key_imp_eq_value)
    with c'(2) that(3) show False
      by (metis fst_conv sum.distinct(1))
  qed
  have C: "allTools =
           concat (map (\<lambda>(n, r). case r of Inl e1 \<Rightarrow> []
                                 | Inr tls \<Rightarrow> map (\<lambda>t. \<lparr>Tool = t, ServerName = n\<rparr>) tls)
                       (backend_listings (servers m) w))"
    using ListAllTools_result(3)[OF assms] L by simp
  from ListAllTools_result(1)[OF assms] L C S A B show ?thesis by blast
qed

theorem ListAllTools_union_of_listed_witness:
  "ListAllTools ex_manager_broken_first 0 =
     (([\<lparr>Tool = \<lparr>tool_Name = ''web_search'', tool_Description = ''Search the web'',
                 InputSchema = ''{}''\<rparr>,
         ServerName = ''blaxel-search''\<rparr>], None),
      [(''broken'', Inl (External ''connection refused'')),
       (''blaxel-search'',
        Inr [\<lparr>tool_Name = ''web_search'', tool_Description = ''Search the web'',
               InputSchema = ''{}''\<rparr>])],
      2) \<and>
   \<lparr>Tool = \<lparr>tool_Name = ''web_search'', tool_Description = ''Search the web'',
              InputSchema = ''{}''\<rparr>,
     ServerName = ''blaxel-search''\<rparr>
     \<in> set (fst (fst (ListAllTools ex_manager_broken_first 0))) \<and>
   ''broken'' \<notin> set (map ServerName (fst (fst (ListAllTools ex_manager_broken_first 0))))"
proof -
  let ?tool = "\<lparr>tool_Name = ''web_search'', tool_Description = ''Search the web'',
                 InputSchema = ''{}''\<rparr>"
  let ?all = "[\<lparr>Tool = ?tool, ServerName = ''blaxel-search''\<rparr>]"
  have l: "ListAllTools ex_manager_broken_first 0 =
     ((?all, None),
      [(''broken'', Inl (External ''connection refused'')), (''blaxel-search'', Inr [?tool])],
      2)"
    by (simp add: ex_manager_broken_first_def ex_search_def ex_broken_def ListAllTools_def)
  have s1: "(''blaxel-search'', ex_search) \<in> set (servers ex_manager_broken_first) \<and>
            (\<forall>w0. \<exists>w1. client_ListTools ex_search w0 = (Inr [?tool], w1)) \<and>
            ?tool \<in> set [?tool]"
    by (simp add: ex_manager_broken_first_def ex_search_def)
  have s2: "(''broken'', ex_broken) \<in> set (servers ex_manager_broken_first) \<and>
            distinct (map fst (servers ex_manager_broken_first)) \<and>
            (\<forall>w0. \<exists>e1 w1. client_ListTools ex_broken w0 = (Inl e1, w1))"
    by (simp add: ex_manager_broken_first_def ex_broken_def)
  from ListAllTools_union_of_listed[OF l] s1
  have 1: "\<lparr>Tool = ?tool, ServerName = ''blaxel-search''\<rparr> \<in> set ?all"
    by blast
  from ListAllTools_union_of_listed[OF l] s2
  have 2: "\<forall>x\<in>set ?all. ServerName x \<noteq> ''broken''"
    by blast
  from 2 have "''broken'' \<notin> set (map ServerName ?all)" by auto
  with l 1 show ?thesis by simp
qed

text \<open>
  C10. The error result of \<open>ListAllTools\<close> is nil for every pool and every world, so the
  handler \<open>listTools\<close> never takes its error branch: it records no error and writes the
  status 200 with the tools and their count.
\<close>

theorem ListAllTools_never_fails:
  "snd (fst (ListAllTools m w)) = None \<and>
   (\<exists>ts w'. listTools blaxel_client c w = (c\<lparr>written := Some (200, ts, int (length ts))\<rparr>, w'))"
proof -
  obtain allTools err listed w' where l: "ListAllTools m w = ((allTools, err), listed, w')"
    by (metis surj_pair)
  obtain allTools2 err2 listed2 w2 where
    l2: "ListAllTools (McpManager blaxel_client) w = ((allTools2, err2), listed2, w2)"
    by (metis surj_pair)
  have "listTools blaxel_client c w =
          (c\<lparr>written := Some (200, allTools2, int (length allTools2))\<rparr>, w2)"
    using ListAllTools_result(1)[OF l2] l2 by (simp add: listTools_def)
  moreover have "snd (fst (ListAllTools m w)) = None"
    using ListAllTools_result(1)[OF l] l by simp
  ultimately show ?thesis by blast
qed

theorem ListAllTools_never_fails_witness:
  "snd (fst (ListAllTools ex_manager 0)) = None \<and>
   (\<exists>ts w'. listTools (ex_client ex_final_gateway) \<lparr>Errors = [], written = None\<rparr> 0 =
      (\<lparr>Errors = [], written = None\<rparr>\<lparr>written := Some (200, ts, int (length ts))\<rparr>, w'))"
  using ListAllTools_never_fails [of ex_manager 0 "ex_client ex_final_gateway" "\<lparr>Errors = [], written = None\<rparr>"]
  by simp

section \<open>The agent loop\<close>

subsection \<open>Case analysis and induction\<close>

lemma Run_loop_exhausted:
  "\<not> i \<le> maxIterations a \<Longrightarrow>
   Run_loop a e i st =
     (Inr (fst (createMaxIterationsResponse a e (world st))),
      st\<lparr>world := snd (createMaxIterationsResponse a e (world st))\<rparr>)"
  by (subst Run_loop.simps) (simp split: prod.splits)

lemma Run_loop_cases [consumes 1, case_names gateway_error no_choices final tool_error continue]:
  assumes "i \<le> maxIterations a"
  obtains
    err w' where
      "CreateChatCompletion (blaxelClient a)
         \<lparr>req_Model = '''', Messages = messages st, MaxTokens = None, Stream = False,
          Tools = tools a\<rparr> (world st) = (Inl err, w')"
      "Run_loop a e i st =
         (Inl (FailedToGetAIResponse i err),
          st\<lparr>world := w',
             model_calls := model_calls st @
               [\<lparr>req_Model = '''', Messages = messages st, MaxTokens = None, Stream = False,
                 Tools = tools a\<rparr>]\<rparr>)"
  | resp w' where
      "CreateChatCompletion (blaxelClient a)
         \<lparr>req_Model = '''', Messages = messages st, MaxTokens = None, Stream = False,
          Tools = tools a\<rparr> (world st) = (Inr resp, w')"
      "Choices resp = []"
      "Run_loop a e i st =
         (Inl (NoResponseChoices i),
          st\<lparr>world := w',
             model_calls := model_calls st @
               [\<lparr>req_Model = '''', Messages = messages st, MaxTokens = None, Stream = False,
                 Tools = tools a\<rparr>]\<rparr>)"
  | resp w' choice cs where
      "CreateChatCompletion (blaxelClient a)
         \<lparr>req_Model = '''', Messages = messages st, MaxTokens = None, Stream = False,
          Tools = tools a\<rparr> (world st) = (Inr resp, w')"
      "Choices resp = choice # cs"
      "ToolCalls (Message choice) = []"
      "Run_loop a e i st =
         (Inr resp,
          st\<lparr>messages := messages st @ [Message choice],
             world := w',
             model_calls := model_calls st @
               [\<lparr>req_Model = '''', Messages = messages st, MaxTokens = None, Stream = False,
                 Tools = tools a\<rparr>]\<rparr>)"
  | resp w' choice cs err st2 where
      "CreateChatCompletion (blaxelClient a)
         \<lparr>req_Model = '''', Messages = messages st, MaxTokens = None, Stream = False,
          Tools = tools a\<rparr> (world st) = (Inr resp, w')"
      "Choices resp = choice # cs"
      "ToolCalls (Message choice) \<noteq> []"
      "execute_tool_calls a e i (ToolCalls (Message choice))
         (st\<lparr>messages := messages st @ [Message choice],
             world := w',
             model_calls := model_calls st @
               [\<lparr>req_Model = '''', Messages = messages st, MaxTokens = None, Stream = False,
                 Tools = tools a\<rparr>]\<rparr>) = (Some err, st2)"
      "Run_loop a e i st = (Inl err, st2)"
  | resp w' choice cs st2 where
      "CreateChatCompletion (blaxelClient a)
         \<lparr>req_Model = '''', Messages = messages st, MaxTokens = None, Stream = False,
          Tools = tools a\<rparr> (world st) = (Inr resp, w')"
      "Choices resp = choice # cs"
      "ToolCalls (Message choice) \<noteq> []"
      "execute_tool_calls a e i (ToolCalls (Message choice))
         (st\<lparr>messages := messages st @ [Message choice],
             world := w',
             model_calls := model_calls st @
               [\<lparr>req_Model = '''', Messages = messages st, MaxTokens = None, Stream = False,
                 Tools = tools a\<rparr>]\<rparr>) = (None, st2)"
      "Run_loop a e i st = Run_loop a e (i + 1) st2"
proof -
  let ?req = "\<lparr>req_Model = '''', Messages = messages st, MaxTokens = None, Stream = False,
          Tools = tools a\<rparr>"
  obtain r w' where c: "CreateChatCompletion (blaxelClient a) ?req (world st) = (r, w')"
    by (cases "CreateChatCompletion (blaxelClient a) ?req (world st)")
  show thesis
  proof (cases r)
    case (Inl err)
    show thesis
      by (rule that(1)[of err w']) (use c Inl assms in \<open>simp_all add: Run_loop.simps[of a e i st]\<close>)
  next
    case (Inr resp)
    show thesis
    proof (cases "Choices resp")
      case Nil
      show thesis
        by (rule that(2)[of resp w']) (use c Inr Nil assms in \<open>simp_all add: Run_loop.simps[of a e i st]\<close>)
    next
      case (Cons choice cs)
      show thesis
      proof (cases "ToolCalls (Message choice) = []")
        case True
        show thesis
          by (rule that(3)[of resp w' choice cs])
            (use c Inr Cons True assms in \<open>simp_all add: Run_loop.simps[of a e i st]\<close>)
      next
        case False
        let ?st1 = "st\<lparr>messages := messages st @ [Message choice],
             world := w',
             model_calls := model_calls st @ [?req]\<rparr>"
        obtain r2 st2 where x: "execute_tool_calls a e i (ToolCalls (Message choice)) ?st1 = (r2, st2)"
          by (cases "execute_tool_calls a e i (ToolCalls (Message choice)) ?st1")
        show thesis
        proof (cases r2)
          case None
          show thesis
            by (rule that(5)[of resp w' choice cs st2])
              (use c Inr Cons False x None assms in \<open>simp_all add: Run_loop.simps[of a e i st]\<close>)
        next
          case (Some err)
          show thesis
            by (rule that(4)[of resp w' choice cs err st2])
              (use c Inr Cons False x Some assms in \<open>simp_all add: Run_loop.simps[of a e i st]\<close>)
        qed
      qed
    qed
  qed
qed

lemma Run_loop_measure_induct [case_names exhausted step]:
  assumes "\<And>i st. \<not> i \<le> maxIterations a \<Longrightarrow> P i st"
    and "\<And>i st. i \<le> maxIterations a \<Longrightarrow> (\<And>st'. P (i + 1) st') \<Longrightarrow> P i st"
  shows "P i st"
proof (induction "nat (maxIterations a + 1 - i)" arbitrary: i st)
  case 0
  then show ?case by (intro assms(1)) simp
next
  case (Suc n)
  then have "i \<le> maxIterations a" and "n = nat (maxIterations a + 1 - (i + 1))"
    by simp_all
  then show ?case using Suc.hyps(1) assms(2) by blast
qed

lemma execute_tool_calls_model_calls:
  "model_calls (snd (execute_tool_calls a e i tcs st)) = model_calls st"
  by (induction tcs arbitrary: st) (auto split: prod.splits sum.splits)

lemma execute_tool_calls_model_calls_eq:
  "execute_tool_calls a e i tcs st = (r, st2) \<Longrightarrow> model_calls st2 = model_calls st"
  using execute_tool_calls_model_calls[of a e i tcs st] by simp

lemma Run_loop_model_calls_prefix:
  "\<exists>xs. model_calls (snd (Run_loop a e i st)) = model_calls st @ xs"
proof (induction i st rule: Run_loop_measure_induct[where a = a])
  case (exhausted i st)
  then show ?case by (simp add: Run_loop_exhausted)
next
  case (step i st)
  from step(1) show ?case
  proof (cases rule: Run_loop_cases[where e = e and st = st])
    case (tool_error resp w' choice cs err st2)
    then show ?thesis
      by (auto dest: execute_tool_calls_model_calls_eq)
  next
    case (continue resp w' choice cs st2)
    then show ?thesis using step(2)[of st2]
      by (auto dest: execute_tool_calls_model_calls_eq)
  qed simp_all
qed

lemma createMaxIterationsResponse_shape:
  "createMaxIterationsResponse a e w = (resp, w') \<Longrightarrow>
   (\<exists>ch. Choices resp = [ch] \<and> Role (Message ch) = ''assistant'' \<and> FinishReason ch = ''length'') \<and>
   PromptTokens (Usage resp) = 0 \<and> CompletionTokens (Usage resp) = 0 \<and> TotalTokens (Usage resp) = 0"
  by (auto simp: createMaxIterationsResponse_def split: prod.splits)

lemma Run_calls_model_once:
  assumes "1 \<le> maxIterations a"
  shows "model_calls (snd (Run a e u w)) \<noteq> []"
proof -
  let ?st = "\<lparr>messages =
          [\<lparr>Role = ''system'', Content = systemPrompt a, ToolCalls = [], ToolCallId = ''''\<rparr>,
           \<lparr>Role = ''user'', Content = u, ToolCalls = [], ToolCallId = ''''\<rparr>],
        world = w, model_calls = [], tool_execs = []\<rparr>"
  from assms have "model_calls (snd (Run_loop a e 1 ?st)) \<noteq> []"
  proof (cases rule: Run_loop_cases[where e = e and st = ?st])
    case (tool_error resp w' choice cs err st2)
    then show ?thesis
      by (auto dest: execute_tool_calls_model_calls_eq)
  next
    case (continue resp w' choice cs st2)
    then show ?thesis
      using Run_loop_model_calls_prefix[of a e "1 + 1" st2]
      by (auto dest: execute_tool_calls_model_calls_eq)
  qed simp_all
  then show ?thesis by (simp add: Run_def)
qed

subsection \<open>The iteration budget\<close>

text \<open>
  C8. A configuration whose \<open>MaxIterations\<close> is 0 or less gives an agent with a budget of
  10 iterations: \<open>NewAgent\<close> puts the default in its place, and a run of that agent calls
  the model at least once.
\<close>

theorem NewAgent_default_maxIterations:
  assumes "cfg_MaxIterations config \<le> 0"
  shows "maxIterations (NewAgent config client) = 10 \<and>
         model_calls (snd (Run (NewAgent config client) e userInput w)) \<noteq> []"
proof -
  have m: "maxIterations (NewAgent config client) = 10"
    using assms by (simp add: NewAgent_def Let_def)
  have "model_calls (snd (Run (NewAgent config client) e userInput w)) \<noteq> []"
    by (rule Run_calls_model_once) (simp add: m)
  with m show ?thesis by simp
qed

theorem NewAgent_default_maxIterations_witness:
  "cfg_MaxIterations (ex_config 0) \<le> 0 \<and>
   maxIterations (NewAgent (ex_config 0) (ex_client ex_final_gateway)) = 10 \<and>
   model_calls (snd (Run (NewAgent (ex_config 0) (ex_client ex_final_gateway)) ex_env ''2+2?'' 0)) \<noteq> []"
  using NewAgent_default_maxIterations [of "ex_config 0" "ex_client ex_final_gateway" ex_env "''2+2?''" 0]
  by (simp add: ex_config_def)

text \<open>
  C9. \<open>SetMaxIterations\<close> stores any value. With a budget of 0 or less \<open>Run\<close> calls
  neither the model nor a tool and returns, with no error, the response made by
  \<open>createMaxIterationsResponse\<close>: one choice, role assistant, finish reason "length", usage 0.
\<close>

theorem SetMaxIterations_nonpositive_runs_nothing:
  assumes "k \<le> 0"
  shows "\<exists>resp st ch.
           Run (SetMaxIterations a k) e userInput w = (Inr resp, st) \<and>
           (resp, world st) = createMaxIterationsResponse (SetMaxIterations a k) e w \<and>
           model_calls st = [] \<and> tool_execs st = [] \<and>
           Choices resp = [ch] \<and> Role (Message ch) = ''assistant'' \<and>
           FinishReason ch = ''length'' \<and>
           PromptTokens (Usage resp) = 0 \<and> CompletionTokens (Usage resp) = 0 \<and>
           TotalTokens (Usage resp) = 0"
proof -
  have "\<not> 1 \<le> maxIterations (SetMaxIterations a k)"
    using assms by (simp add: SetMaxIterations_def)
  then show ?thesis
    by (simp add: Run_def Run_loop_exhausted createMaxIterationsResponse_def split: prod.splits)
qed

theorem SetMaxIterations_nonpositive_runs_nothing_witness:
  "(-3::int) \<le> 0 \<and>
   (\<exists>resp st ch.
      Run (SetMaxIterations (ex_agent (ex_tool_gateway ''{}'') 5) (-3)) ex_env ''2+2?'' 0 = (Inr resp, st) \<and>
      (resp, world st) =
        createMaxIterationsResponse (SetMaxIterations (ex_agent (ex_tool_gateway ''{}'') 5) (-3)) ex_env 0 \<and>
      model_calls st = [] \<and> tool_execs st = [] \<and>
      Choices resp = [ch] \<and> Role (Message ch) = ''assistant'' \<and>
      FinishReason ch = ''length'' \<and>
      PromptTokens (Usage resp) = 0 \<and> CompletionTokens (Usage resp) = 0 \<and>
      TotalTokens (Usage resp) = 0)"
  using SetMaxIterations_nonpositive_runs_nothing
          [of "-3" "ex_agent (ex_tool_gateway ''{}'') 5" ex_env "''2+2?''" 0]
  by simp

text \<open>
  C3. When the budget allows a first call, and the model's first response has a choice whose
  message holds no tool call, \<open>Run\<close> returns that response as it is, after one call to the
  model and no tool call.
\<close>

theorem first_response_without_tool_calls:
  assumes "1 \<le> maxIterations a"
    and "CreateChatCompletion (blaxelClient a)
           \<lparr>req_Model = '''',
            Messages =
              [\<lparr>Role = ''system'', Content = systemPrompt a, ToolCalls = [], ToolCallId = ''''\<rparr>,
               \<lparr>Role = ''user'', Content = userInput, ToolCalls = [], ToolCallId = ''''\<rparr>],
            MaxTokens = None, Stream = False, Tools = tools a\<rparr> w = (Inr resp, w')"
    and "Choices resp = choice # cs"
    and "ToolCalls (Message choice) = []"
  shows "fst (Run a e userInput w) = Inr resp \<and>
         length (model_calls (snd (Run a e userInput w))) = 1 \<and>
         tool_execs (snd (Run a e userInput w)) = []"
  using assms by (simp add: Run_def Run_loop.simps[of a e 1])

theorem first_response_without_tool_calls_witness:
  "fst (Run (ex_agent ex_final_gateway 10) ex_env ''2+2?'' 0) = Inr (ex_reply []) \<and>
   length (model_calls (snd (Run (ex_agent ex_final_gateway 10) ex_env ''2+2?'' 0))) = 1 \<and>
   tool_execs (snd (Run (ex_agent ex_final_gateway 10) ex_env ''2+2?'' 0)) = []"
proof -
  have m: "1 \<le> maxIterations (ex_agent ex_final_gateway 10)"
    by (simp add: ex_defs ListAllTools_def ConvertMCPToolsToOpenAI_def NewAgent_def SetTools_def
        SetToolManager_def Let_def)
  have c: "blaxelClient (ex_agent ex_final_gateway 10) = ex_client ex_final_gateway"
    by (simp add: ex_agent_def ListAllTools_def ConvertMCPToolsToOpenAI_def NewAgent_def SetTools_def
        SetToolManager_def Let_def split: prod.splits)
  have g: "CreateChatCompletion (blaxelClient (ex_agent ex_final_gateway 10))
           \<lparr>req_Model = '''',
            Messages =
              [\<lparr>Role = ''system'', Content = systemPrompt (ex_agent ex_final_gateway 10),
                ToolCalls = [], ToolCallId = ''''\<rparr>,
               \<lparr>Role = ''user'', Content = ''2+2?'', ToolCalls = [], ToolCallId = ''''\<rparr>],
            MaxTokens = None, Stream = False, Tools = tools (ex_agent ex_final_gateway 10)\<rparr> 0
         = (Inr (ex_reply []), Suc 0)"
    by (simp add: c ex_client_def ex_final_gateway_def)
  have ch: "Choices (ex_reply []) =
      \<lparr>Index = 0,
       Message = \<lparr>Role = ''assistant'', Content = ''4'', ToolCalls = [], ToolCallId = ''''\<rparr>,
       FinishReason = ''stop''\<rparr> # []"
    by (simp add: ex_reply_def)
  show ?thesis
    by (rule first_response_without_tool_calls[OF m g ch]) simp
qed





subsection \<open>The arguments of a tool call\<close>

lemma executeToolCall_empty_arguments:
  assumes "Arguments (call_Function tc) = ''''"
  shows "executeToolCall a (e\<lparr>json_Unmarshal := u\<rparr>) tc w = executeToolCall a e tc w"
    and "fst (executeToolCall a e tc w) \<noteq> Inl (FailedToParseToolArguments err)"
    and "GetServerForTool (toolManager a) (call_Name (call_Function tc)) = (srv, True) \<Longrightarrow>
         CallTool (McpManager (blaxelClient a)) srv (call_Name (call_Function tc)) JNull w = (Inr c, w') \<Longrightarrow>
         json_Marshal_content e c = Inr content \<Longrightarrow>
         executeToolCall a e tc w = (Inr content, w')"
  using assms by (auto simp: executeToolCall_def split: prod.splits sum.splits)

lemma executeToolCall_malformed:
  assumes "Arguments (call_Function tc) \<noteq> ''''"
    and "json_Unmarshal e (Arguments (call_Function tc)) = Inl perr"
  shows "executeToolCall a e tc w = (Inl (FailedToParseToolArguments perr), w)"
  using assms by (simp add: executeToolCall_def)

lemma execute_tool_calls_malformed:
  assumes "execute_tool_calls a e i tcs st = (r, st')"
    and "\<forall>t\<in>set (tool_execs st).
           \<not> (Arguments (call_Function t) \<noteq> '''' \<and> isl (json_Unmarshal e (Arguments (call_Function t))))"
  shows "(r = None \<longrightarrow>
           (\<forall>t\<in>set (tool_execs st').
              \<not> (Arguments (call_Function t) \<noteq> '''' \<and>
                 isl (json_Unmarshal e (Arguments (call_Function t)))))) \<and>
         (\<forall>tc perr. tc \<in> set (tool_execs st') \<and> Arguments (call_Function tc) \<noteq> '''' \<and>
            json_Unmarshal e (Arguments (call_Function tc)) = Inl perr \<longrightarrow>
            r = Some (FailedToExecuteTool (call_Name (call_Function tc)) i
                        (FailedToParseToolArguments perr)) \<and>
            last (tool_execs st') = tc)"
  using assms
proof (induction tcs arbitrary: st)
  case Nil
  then show ?case by auto
next
  case (Cons t tcs)
  obtain x w1 where x: "executeToolCall a e t (world st) = (x, w1)"
    by (cases "executeToolCall a e t (world st)")
  show ?case
  proof (cases x)
    case (Inl err)
    with Cons.prems(1) x have r: "r = Some (FailedToExecuteTool (call_Name (call_Function t)) i err)"
      and st': "st' = st\<lparr>world := w1, tool_execs := tool_execs st @ [t]\<rparr>"
      by simp_all
    have "err = FailedToParseToolArguments perr"
      if "Arguments (call_Function t) \<noteq> ''''" "json_Unmarshal e (Arguments (call_Function t)) = Inl perr"
      for perr
      using executeToolCall_malformed[OF that, of a "world st"] x Inl by simp
    with r st' Cons.prems(2) show ?thesis by auto
  next
    case (Inr out)
    let ?st1 = "st\<lparr>messages := messages st @
                    [\<lparr>Role = ''tool'', Content = out, ToolCalls = [],
                      ToolCallId = call_Id t\<rparr>],
                world := w1,
                tool_execs := tool_execs st @ [t]\<rparr>"
    from Cons.prems(1) x Inr have 1: "execute_tool_calls a e i tcs ?st1 = (r, st')"
      by simp
    have "\<not> (Arguments (call_Function t) \<noteq> '''' \<and> isl (json_Unmarshal e (Arguments (call_Function t))))"
    proof
      assume b: "Arguments (call_Function t) \<noteq> '''' \<and> isl (json_Unmarshal e (Arguments (call_Function t)))"
      then obtain perr where "json_Unmarshal e (Arguments (call_Function t)) = Inl perr"
        by (auto simp: isl_def)
      from executeToolCall_malformed[OF _ this, of a "world st"] b x Inr show False by simp
    qed
    with Cons.prems(2) have 2: "\<forall>t\<in>set (tool_execs ?st1).
           \<not> (Arguments (call_Function t) \<noteq> '''' \<and> isl (json_Unmarshal e (Arguments (call_Function t))))"
      by auto
    from Cons.IH[OF 1 2] show ?thesis .
  qed
qed

lemma Run_loop_malformed:
  assumes "\<forall>t\<in>set (tool_execs st).
           \<not> (Arguments (call_Function t) \<noteq> '''' \<and> isl (json_Unmarshal e (Arguments (call_Function t))))"
    and "tc \<in> set (tool_execs (snd (Run_loop a e i st)))"
    and "Arguments (call_Function tc) \<noteq> ''''"
    and "json_Unmarshal e (Arguments (call_Function tc)) = Inl perr"
  shows "(\<exists>j. fst (Run_loop a e i st) =
               Inl (FailedToExecuteTool (call_Name (call_Function tc)) j
                      (FailedToParseToolArguments perr))) \<and>
         last (tool_execs (snd (Run_loop a e i st))) = tc"
  using assms(1,2)
proof (induction i st rule: Run_loop_measure_induct[where a = a])
  case (exhausted i st)
  with assms(3,4) show ?case by (auto simp: Run_loop_exhausted)
next
  case (step i st)
  from step(1) show ?case
  proof (cases rule: Run_loop_cases[where e = e and st = st])
    case (gateway_error err w')
    with step(3,4) assms(3,4) show ?thesis by auto
  next
    case (no_choices resp w')
    with step(3,4) assms(3,4) show ?thesis by auto
  next
    case (final resp w' choice cs)
    with step(3,4) assms(3,4) show ?thesis by auto
  next
    case (tool_error resp w' choice cs err st2)
    from execute_tool_calls_malformed[OF tool_error(4)] step(3)
    have "\<forall>tc perr. tc \<in> set (tool_execs st2) \<and> Arguments (call_Function tc) \<noteq> '''' \<and>
            json_Unmarshal e (Arguments (call_Function tc)) = Inl perr \<longrightarrow>
            Some err = Some (FailedToExecuteTool (call_Name (call_Function tc)) i
                        (FailedToParseToolArguments perr)) \<and>
            last (tool_execs st2) = tc"
      by simp
    with step(4) assms(3,4) tool_error(5) show ?thesis by auto
  next
    case (continue resp w' choice cs st2)
    from execute_tool_calls_malformed[OF continue(4)] step(3)
    have "\<forall>t\<in>set (tool_execs st2).
           \<not> (Arguments (call_Function t) \<noteq> '''' \<and> isl (json_Unmarshal e (Arguments (call_Function t))))"
      by simp
    from step(2)[OF this] step(4) continue(5) show ?thesis by simp
  qed
qed

lemma execute_tool_calls_None_wellformed:
  assumes "execute_tool_calls a e i tcs st = (None, st')"
    and "tc \<in> set tcs"
    and "Arguments (call_Function tc) \<noteq> ''''"
    and "json_Unmarshal e (Arguments (call_Function tc)) = Inl perr"
  shows False
  using assms(1,2)
proof (induction tcs arbitrary: st)
  case Nil
  then show ?case by simp
next
  case (Cons t tcs)
  obtain x w1 where x: "executeToolCall a e t (world st) = (x, w1)"
    by (cases "executeToolCall a e t (world st)")
  show ?case
  proof (cases x)
    case (Inl err)
    with Cons.prems(1) x show False by simp
  next
    case (Inr out)
    have "t \<noteq> tc"
    proof
      assume "t = tc"
      with executeToolCall_malformed[OF assms(3,4), of a "world st"] x Inr show False by simp
    qed
    with Cons.prems(2) have "tc \<in> set tcs" by simp
    moreover from Cons.prems(1) x Inr have "\<exists>st1. execute_tool_calls a e i tcs st1 = (None, st')"
      by auto
    ultimately show False using Cons.IH by blast
  qed
qed

lemma Run_loop_reply_with_malformed_call:
  assumes "i \<le> maxIterations a"
    and "CreateChatCompletion (blaxelClient a)
           \<lparr>req_Model = '''', Messages = messages st, MaxTokens = None, Stream = False,
            Tools = tools a\<rparr> (world st) = (Inr resp, w')"
    and "Choices resp = choice # cs"
    and "tc \<in> set (ToolCalls (Message choice))"
    and "Arguments (call_Function tc) \<noteq> ''''"
    and "json_Unmarshal e (Arguments (call_Function tc)) = Inl perr"
  shows "\<exists>err. fst (Run_loop a e i st) = Inl err"
  using assms(1)
proof (cases rule: Run_loop_cases[where e = e and st = st])
  case (gateway_error err w')
  then show ?thesis by simp
next
  case (no_choices resp w')
  then show ?thesis by simp
next
  case (final resp2 w2 choice2 cs2)
  with assms(2,3,4) show ?thesis by simp
next
  case (tool_error resp w' choice cs err st2)
  then show ?thesis by simp
next
  case (continue resp2 w2 choice2 cs2 st2)
  with assms(2,3) have "choice2 = choice" by simp
  with execute_tool_calls_None_wellformed[OF continue(4) _ assms(5,6)] assms(4)
  show ?thesis by simp
qed

text \<open>
  C5. \<open>executeToolCall\<close> does not parse an empty argument string: its outcome does not
  depend on \<open>json.Unmarshal\<close>, it never is a parse error, and the backend is called with
  nil parameters (when the tool is routed and the backend and the serialisation of its
  result succeed, so does the call). A non-empty argument string that \<open>json.Unmarshal\<close>
  rejects makes \<open>executeToolCall\<close> fail before any backend is called. A run of the agent
  that executes such a tool call returns that error, wrapped with the tool name and the
  iteration, and executes no call after it; and at any iteration, a reply of the model
  whose first choice holds such a tool call makes the loop return an error, not a response.
\<close>

theorem malformed_arguments_abort_run:
  "(Arguments (call_Function tc) = '''' \<longrightarrow>
      executeToolCall (a :: ('w, 's, 'c) Agent) (e\<lparr>json_Unmarshal := u\<rparr>) tc w =
        executeToolCall a e tc w \<and>
      (\<forall>err. fst (executeToolCall a e tc w) \<noteq> Inl (FailedToParseToolArguments err)) \<and>
      (\<forall>srv c w' content.
         GetServerForTool (toolManager a) (call_Name (call_Function tc)) = (srv, True) \<and>
         CallTool (McpManager (blaxelClient a)) srv (call_Name (call_Function tc)) JNull w = (Inr c, w') \<and>
         json_Marshal_content e c = Inr content \<longrightarrow>
         executeToolCall a e tc w = (Inr content, w'))) \<and>
   (Arguments (call_Function tc) \<noteq> '''' \<and>
    json_Unmarshal e (Arguments (call_Function tc)) = Inl perr \<longrightarrow>
      executeToolCall a e tc w = (Inl (FailedToParseToolArguments perr), w) \<and>
      (\<forall>userInput res st.
         Run a e userInput w = (res, st) \<and> tc \<in> set (tool_execs st) \<longrightarrow>
         (\<exists>j. res = Inl (FailedToExecuteTool (call_Name (call_Function tc)) j
                          (FailedToParseToolArguments perr))) \<and>
         last (tool_execs st) = tc) \<and>
      (\<forall>i st resp w' choice cs.
         i \<le> maxIterations a \<and>
         CreateChatCompletion (blaxelClient a)
           \<lparr>req_Model = '''', Messages = messages st, MaxTokens = None, Stream = False,
            Tools = tools a\<rparr> (world st) = (Inr resp, w') \<and>
         Choices resp = choice # cs \<and> tc \<in> set (ToolCalls (Message choice)) \<longrightarrow>
         (\<exists>err. fst (Run_loop a e i st) = Inl err)))"
proof (intro conjI impI allI)
  assume "Arguments (call_Function tc) = ''''"
  then show "executeToolCall a (e\<lparr>json_Unmarshal := u\<rparr>) tc w = executeToolCall a e tc w"
    by (rule executeToolCall_empty_arguments(1))
next
  fix err
  assume "Arguments (call_Function tc) = ''''"
  then show "fst (executeToolCall a e tc w) \<noteq> Inl (FailedToParseToolArguments err)"
    by (rule executeToolCall_empty_arguments(2))
next
  fix srv c w' content
  assume "Arguments (call_Function tc) = ''''"
    and "GetServerForTool (toolManager a) (call_Name (call_Function tc)) = (srv, True) \<and>
         CallTool (McpManager (blaxelClient a)) srv (call_Name (call_Function tc)) JNull w = (Inr c, w') \<and>
         json_Marshal_content e c = Inr content"
  then show "executeToolCall a e tc w = (Inr content, w')"
    using executeToolCall_empty_arguments(3)[of tc a srv w c w' e content] by simp
next
  assume "Arguments (call_Function tc) \<noteq> '''' \<and>
    json_Unmarshal e (Arguments (call_Function tc)) = Inl perr"
  then show "executeToolCall a e tc w = (Inl (FailedToParseToolArguments perr), w)"
    by (simp add: executeToolCall_malformed)
next
  fix userInput res st
  assume b: "Arguments (call_Function tc) \<noteq> '''' \<and>
    json_Unmarshal e (Arguments (call_Function tc)) = Inl perr"
    and r: "Run a e userInput w = (res, st) \<and> tc \<in> set (tool_execs st)"
  let ?st = "\<lparr>messages =
          [\<lparr>Role = ''system'', Content = systemPrompt a, ToolCalls = [], ToolCallId = ''''\<rparr>,
           \<lparr>Role = ''user'', Content = userInput, ToolCalls = [], ToolCallId = ''''\<rparr>],
        world = w, model_calls = [], tool_execs = []\<rparr>"
  from r have "Run_loop a e 1 ?st = (res, st)" by (simp add: Run_def)
  with Run_loop_malformed[of ?st e tc a 1 perr] b r
  have "(\<exists>j. res = Inl (FailedToExecuteTool (call_Name (call_Function tc)) j
                          (FailedToParseToolArguments perr))) \<and> last (tool_execs st) = tc"
    by simp
  then show "\<exists>j. res = Inl (FailedToExecuteTool (call_Name (call_Function tc)) j
                          (FailedToParseToolArguments perr))"
    and "last (tool_execs st) = tc"
    by simp_all
next
  fix i and st :: "'w loop_state" and resp w' choice cs
  assume b: "Arguments (call_Function tc) \<noteq> '''' \<and>
    json_Unmarshal e (Arguments (call_Function tc)) = Inl perr"
    and r: "i \<le> maxIterations a \<and>
         CreateChatCompletion (blaxelClient a)
           \<lparr>req_Model = '''', Messages = messages st, MaxTokens = None, Stream = False,
            Tools = tools a\<rparr> (world st) = (Inr resp, w') \<and>
         Choices resp = choice # cs \<and> tc \<in> set (ToolCalls (Message choice))"
  then show "\<exists>err. fst (Run_loop a e i st) = Inl err"
    using Run_loop_reply_with_malformed_call[of i a st resp w' choice cs tc e perr] by simp
qed


theorem malformed_arguments_abort_run_witness:
  "executeToolCall (ex_agent (ex_tool_gateway '''') 3) ex_env (ex_call '''') 0 = (Inr ''[]'', 1) \<and>
   (\<exists>j. fst (Run (ex_agent (ex_tool_gateway ''{city'') 3) ex_env ''weather?'' 0) =
          Inl (FailedToExecuteTool ''web_search'' j
                 (FailedToParseToolArguments (External ''invalid character''))))"
proof -
  let ?a = "ex_agent (ex_tool_gateway '''') 3"
  let ?b = "ex_agent (ex_tool_gateway ''{city'') 3"
  let ?out = "Run ?b ex_env ''weather?'' 0"
  have e1: "Arguments (call_Function (ex_call '''')) = ''''"
    by (simp add: ex_call_def)
  have e2: "GetServerForTool (toolManager ?a) (call_Name (call_Function (ex_call ''''))) =
              (''blaxel-search'', True) \<and>
            CallTool (McpManager (blaxelClient ?a)) ''blaxel-search''
              (call_Name (call_Function (ex_call ''''))) JNull 0 = (Inr ''[]'', 1) \<and>
            json_Marshal_content ex_env ''[]'' = Inr ''[]''"
    by (simp add: ex_agent_eq ex_call_def GetServerForTool_def CallTool_def ex_client_def
        ex_manager_def ex_search_def ex_env_def)
  from malformed_arguments_abort_run
         [where tc = "ex_call ''''" and a = ?a and e = ex_env and w = 0]
       e1 e2
  have 1: "executeToolCall ?a ex_env (ex_call '''') 0 = (Inr ''[]'', 1)"
    by blast
  have b1: "Arguments (call_Function (ex_call ''{city'')) \<noteq> '''' \<and>
            json_Unmarshal ex_env (Arguments (call_Function (ex_call ''{city''))) =
              Inl (External ''invalid character'')"
    by (simp add: ex_call_def ex_env_def)
  have b2: "Run ?b ex_env ''weather?'' 0 = (fst ?out, snd ?out) \<and>
            ex_call ''{city'' \<in> set (tool_execs (snd ?out))"
    by (simp add: ex_agent_eq Run_def Run_loop.simps executeToolCall_def ex_client_def
        ex_tool_gateway_def ex_reply_def ex_call_def ex_env_def)
  from malformed_arguments_abort_run
         [where tc = "ex_call ''{city''" and a = ?b and e = ex_env and w = 0
            and perr = "External ''invalid character''"]
       b1 b2
  have "\<exists>j. fst ?out = Inl (FailedToExecuteTool (call_Name (call_Function (ex_call ''{city''))) j
                          (FailedToParseToolArguments (External ''invalid character'')))"
    by blast
  then have 2: "\<exists>j. fst ?out = Inl (FailedToExecuteTool ''web_search'' j
                          (FailedToParseToolArguments (External ''invalid character'')))"
    by (simp add: ex_call_def)
  from 1 2 show ?thesis by blast
qed

subsection \<open>Turns of the conversation\<close>

lemma turn_messages_Pair:
  "turn_messages (am, rs) =
     am # map (\<lambda>(toolCall, toolResult).
                 \<lparr>Role = ''tool'', Content = toolResult, ToolCalls = [],
                   ToolCallId = call_Id toolCall\<rparr>) (zip (ToolCalls am) rs)"
  by (simp add: turn_messages_def)

lemma heads_from_gateway_snoc:
  assumes "heads_from_gateway a init turns0"
    and "CreateChatCompletion (blaxelClient a)
          \<lparr>req_Model = '''', Messages = init @ concat (map turn_messages turns0),
           MaxTokens = None, Stream = False, Tools = tools a\<rparr> w0 = (Inr resp, w1)"
    and "Choices resp = choice # cs"
  shows "heads_from_gateway a init (turns0 @ [(Message choice, rs)])"
  unfolding heads_from_gateway_def
proof (intro allI impI)
  fix k
  assume "k < length (turns0 @ [(Message choice, rs)])"
  then consider "k < length turns0" | "k = length turns0" by fastforce
  then show "\<exists>w0 resp w1 choice' cs.
        CreateChatCompletion (blaxelClient a)
          \<lparr>req_Model = '''',
           Messages = init @ concat (map turn_messages (take k (turns0 @ [(Message choice, rs)]))),
           MaxTokens = None, Stream = False, Tools = tools a\<rparr> w0 = (Inr resp, w1) \<and>
        Choices resp = choice' # cs \<and> fst ((turns0 @ [(Message choice, rs)]) ! k) = Message choice'"
  proof cases
    case 1
    with assms(1) show ?thesis
      by (simp add: heads_from_gateway_def nth_append)
  next
    case 2
    with assms(2,3) show ?thesis
      by (intro exI[of _ w0] exI[of _ resp] exI[of _ w1] exI[of _ choice] exI[of _ cs]) simp
  qed
qed

lemma results_from_calls_snoc:
  assumes "results_from_calls a e turns0"
    and "\<forall>j<length rs. \<exists>w0 w1. executeToolCall a e (ToolCalls am ! j) w0 = (Inr (rs ! j), w1)"
  shows "results_from_calls a e (turns0 @ [(am, rs)])"
  using assms by (auto simp: results_from_calls_def)

lemma execute_tool_calls_messages:
  assumes "execute_tool_calls a e i tcs st = (r, st')"
  shows "\<exists>rs. messages st' = messages st @ 
               map (\<lambda>(toolCall, toolResult).
                      \<lparr>Role = ''tool'', Content = toolResult, ToolCalls = [],
                        ToolCallId = call_Id toolCall\<rparr>) (zip tcs rs) \<and>
              length rs \<le> length tcs \<and>
              (r = None \<longrightarrow> length rs = length tcs) \<and>
              (\<forall>err. r = Some err \<longrightarrow> (\<exists>n j c. err = FailedToExecuteTool n j c)) \<and>
              (\<forall>j<length rs. \<exists>w0 w1. executeToolCall a e (tcs ! j) w0 = (Inr (rs ! j), w1))"
  using assms
proof (induction tcs arbitrary: st)
  case Nil
  then show ?case by simp
next
  case (Cons tc tcs)
  obtain x w1 where x: "executeToolCall a e tc (world st) = (x, w1)"
    by (cases "executeToolCall a e tc (world st)")
  show ?case
  proof (cases x)
    case (Inl err)
    with Cons.prems x show ?thesis
      by (intro exI[of _ "[]"]) auto
  next
    case (Inr out)
    let ?st1 = "st\<lparr>messages := messages st @
                    [\<lparr>Role = ''tool'', Content = out, ToolCalls = [],
                      ToolCallId = call_Id tc\<rparr>],
                world := w1,
                tool_execs := tool_execs st @ [tc]\<rparr>"
    from Cons.prems x Inr have "execute_tool_calls a e i tcs ?st1 = (r, st')"
      by simp
    from Cons.IH[OF this] obtain rs where
      rs: "messages st' = messages ?st1 @
               map (\<lambda>(toolCall, toolResult).
                      \<lparr>Role = ''tool'', Content = toolResult, ToolCalls = [],
                        ToolCallId = call_Id toolCall\<rparr>) (zip tcs rs)"
        "length rs \<le> length tcs" "r = None \<longrightarrow> length rs = length tcs"
        "\<forall>err. r = Some err \<longrightarrow> (\<exists>n j c. err = FailedToExecuteTool n j c)"
        "\<forall>j<length rs. \<exists>w0 w1. executeToolCall a e (tcs ! j) w0 = (Inr (rs ! j), w1)"
      by blast
    have "\<exists>w0 w1. executeToolCall a e ((tc # tcs) ! j) w0 = (Inr ((out # rs) ! j), w1)"
      if "j < length (out # rs)" for j
    proof (cases j)
      case 0
      with x Inr show ?thesis by auto
    next
      case (Suc j')
      with that rs(5) show ?thesis by simp
    qed
    with rs(1-4) show ?thesis
      by (intro exI[of _ "out # rs"]) simp
  qed
qed

lemma Run_loop_turns:
  assumes "messages st = init @ concat (map turn_messages turns0)"
    and "\<forall>t\<in>set turns0. length (snd t) = length (ToolCalls (fst t))"
    and "heads_from_gateway a init turns0"
    and "results_from_calls a e turns0"
  shows "\<exists>turns.
           messages (snd (Run_loop a e i st)) = init @ concat (map turn_messages turns) \<and>
           heads_from_gateway a init turns \<and>
           results_from_calls a e turns \<and>
           (\<forall>t\<in>set turns. length (snd t) \<le> length (ToolCalls (fst t))) \<and>
           (\<forall>t\<in>set (butlast turns). length (snd t) = length (ToolCalls (fst t))) \<and>
           ((\<forall>n j c. fst (Run_loop a e i st) \<noteq> Inl (FailedToExecuteTool n j c)) \<longrightarrow>
              (\<forall>t\<in>set turns. length (snd t) = length (ToolCalls (fst t))))"
  using assms
proof (induction i st arbitrary: turns0 rule: Run_loop_measure_induct[where a = a])
  case (exhausted i st)
  then show ?case
    by (intro exI[of _ turns0]) (auto simp: Run_loop_exhausted dest: in_set_butlastD)
next
  case (step i st)
  from step(1) show ?case
  proof (cases rule: Run_loop_cases[where e = e and st = st])
    case (gateway_error err w')
    with step(3-6) show ?thesis
      by (intro exI[of _ turns0]) (auto dest: in_set_butlastD)
  next
    case (no_choices resp w')
    with step(3-6) show ?thesis
      by (intro exI[of _ turns0]) (auto dest: in_set_butlastD)
  next
    case (final resp w' choice cs)
    have h: "heads_from_gateway a init (turns0 @ [(Message choice, [])])"
      using heads_from_gateway_snoc[OF step(5) _ final(2)] final(1) step(3) by simp
    have r: "results_from_calls a e (turns0 @ [(Message choice, [])])"
      using results_from_calls_snoc[OF step(6), of "[]"] by simp
    from final step(3,4) h r show ?thesis
      by (intro exI[of _ "turns0 @ [(Message choice, [])]"])
         (auto simp: turn_messages_Pair dest: in_set_butlastD)
  next
    case (tool_error resp w' choice cs err st2)
    from execute_tool_calls_messages[OF tool_error(4)] obtain rs where
      rs: "messages st2 = (messages st @ [Message choice]) @
               map (\<lambda>(toolCall, toolResult).
                      \<lparr>Role = ''tool'', Content = toolResult, ToolCalls = [],
                        ToolCallId = call_Id toolCall\<rparr>) (zip (ToolCalls (Message choice)) rs)"
        "length rs \<le> length (ToolCalls (Message choice))"
        "\<exists>n j c. err = FailedToExecuteTool n j c"
        "\<forall>j<length rs. \<exists>w0 w1.
           executeToolCall a e (ToolCalls (Message choice) ! j) w0 = (Inr (rs ! j), w1)"
      by auto
    have h: "heads_from_gateway a init (turns0 @ [(Message choice, rs)])"
      using heads_from_gateway_snoc[OF step(5) _ tool_error(2)] tool_error(1) step(3) by simp
    have r: "results_from_calls a e (turns0 @ [(Message choice, rs)])"
      using results_from_calls_snoc[OF step(6) rs(4)] .
    from rs(1-3) step(3,4) tool_error(5) h r show ?thesis
      by (intro exI[of _ "turns0 @ [(Message choice, rs)]"])
         (auto simp: turn_messages_Pair)
  next
    case (continue resp w' choice cs st2)
    from execute_tool_calls_messages[OF continue(4)] obtain rs where
      rs: "messages st2 = (messages st @ [Message choice]) @
               map (\<lambda>(toolCall, toolResult).
                      \<lparr>Role = ''tool'', Content = toolResult, ToolCalls = [],
                        ToolCallId = call_Id toolCall\<rparr>) (zip (ToolCalls (Message choice)) rs)"
        "length rs = length (ToolCalls (Message choice))"
        "\<forall>j<length rs. \<exists>w0 w1.
           executeToolCall a e (ToolCalls (Message choice) ! j) w0 = (Inr (rs ! j), w1)"
      by auto
    have 1: "messages st2 = init @ concat (map turn_messages (turns0 @ [(Message choice, rs)]))"
      using rs(1) step(3) by (simp add: turn_messages_Pair)
    have 2: "\<forall>t\<in>set (turns0 @ [(Message choice, rs)]). length (snd t) = length (ToolCalls (fst t))"
      using rs(2) step(4) by simp
    have h: "heads_from_gateway a init (turns0 @ [(Message choice, rs)])"
      using heads_from_gateway_snoc[OF step(5) _ continue(2)] continue(1) step(3) by simp
    have r: "results_from_calls a e (turns0 @ [(Message choice, rs)])"
      using results_from_calls_snoc[OF step(6) rs(3)] .
    from step(2)[OF 1 2 h r] continue(5) show ?thesis by simp
  qed
qed

text \<open>
  C1. The conversation that a run builds is the system message and the user message,
  followed by turns. The head of each turn is the message of the model's reply to the
  conversation so far, and it is followed by the tool messages for its tool calls, in the
  order of the calls, the j-th tool message carrying the id of the j-th call and a result
  of executing it. In every turn but the last, and in every turn of a run that does not
  end with a failed tool call, there are as many tool messages as tool calls. When a tool
  call fails \<open>Run\<close> returns at once, and the last assistant message is followed by the tool
  messages of the calls before the failed one only.
\<close>

theorem tool_messages_answer_tool_calls:
  assumes "Run a e userInput w = (res, st)"
  shows "\<exists>turns.
           messages st =
             [\<lparr>Role = ''system'', Content = systemPrompt a, ToolCalls = [], ToolCallId = ''''\<rparr>,
              \<lparr>Role = ''user'', Content = userInput, ToolCalls = [], ToolCallId = ''''\<rparr>] @
             concat (map turn_messages turns) \<and>
           (\<forall>k<length turns. \<exists>w0 resp w1 choice cs.
              CreateChatCompletion (blaxelClient a)
                \<lparr>req_Model = '''',
                 Messages =
                   [\<lparr>Role = ''system'', Content = systemPrompt a, ToolCalls = [], ToolCallId = ''''\<rparr>,
                    \<lparr>Role = ''user'', Content = userInput, ToolCalls = [], ToolCallId = ''''\<rparr>] @
                   concat (map turn_messages (take k turns)),
                 MaxTokens = None, Stream = False, Tools = tools a\<rparr> w0 = (Inr resp, w1) \<and>
              Choices resp = choice # cs \<and> fst (turns ! k) = Message choice) \<and>
           (\<forall>t\<in>set turns. \<forall>j<length (snd t). \<exists>w0 w1.
              executeToolCall a e (ToolCalls (fst t) ! j) w0 = (Inr (snd t ! j), w1)) \<and>
           (\<forall>t\<in>set turns. length (snd t) \<le> length (ToolCalls (fst t))) \<and>
           (\<forall>t\<in>set (butlast turns). length (snd t) = length (ToolCalls (fst t))) \<and>
           ((\<forall>n j c. res \<noteq> Inl (FailedToExecuteTool n j c)) \<longrightarrow>
              (\<forall>t\<in>set turns. length (snd t) = length (ToolCalls (fst t))))"
proof -
  let ?init = "[\<lparr>Role = ''system'', Content = systemPrompt a, ToolCalls = [], ToolCallId = ''''\<rparr>,
              \<lparr>Role = ''user'', Content = userInput, ToolCalls = [], ToolCallId = ''''\<rparr>]"
  let ?st = "\<lparr>messages = ?init, world = w, model_calls = [], tool_execs = []\<rparr>"
  have r: "Run_loop a e 1 ?st = (res, st)"
    using assms by (simp add: Run_def)
  have 1: "messages ?st = ?init @ concat (map turn_messages [])" by simp
  have 2: "\<forall>t\<in>set ([] :: (ChatMessage \<times> string list) list). length (snd t) = length (ToolCalls (fst t))"
    by simp
  have 3: "heads_from_gateway a ?init []" by (simp add: heads_from_gateway_def)
  have 4: "results_from_calls a e []" by (simp add: results_from_calls_def)
  from Run_loop_turns[OF 1 2 3 4, of 1] r show ?thesis
    unfolding heads_from_gateway_def results_from_calls_def by simp
qed

lemma ex_run_tool_then_final:
  "Run (ex_agent ex_tool_then_final_gateway 10) ex_env ''2+2?'' 0 =
     (Inr (ex_reply []),
      \<lparr>messages =
         [\<lparr>Role = ''system'', Content = ''You are helpful.'', ToolCalls = [], ToolCallId = ''''\<rparr>,
          \<lparr>Role = ''user'', Content = ''2+2?'', ToolCalls = [], ToolCallId = ''''\<rparr>,
          \<lparr>Role = ''assistant'', Content = ''4'', ToolCalls = [ex_call ''{}''], ToolCallId = ''''\<rparr>,
          \<lparr>Role = ''tool'', Content = ''[]'', ToolCalls = [], ToolCallId = ''call_1''\<rparr>,
          \<lparr>Role = ''assistant'', Content = ''4'', ToolCalls = [], ToolCallId = ''''\<rparr>],
       world = 3,
       model_calls =
         [\<lparr>req_Model = '''',
           Messages =
             [\<lparr>Role = ''system'', Content = ''You are helpful.'', ToolCalls = [], ToolCallId = ''''\<rparr>,
              \<lparr>Role = ''user'', Content = ''2+2?'', ToolCalls = [], ToolCallId = ''''\<rparr>],
           MaxTokens = None, Stream = False,
           Tools = tools (ex_agent ex_tool_then_final_gateway 10)\<rparr>,
          \<lparr>req_Model = '''',
           Messages =
             [\<lparr>Role = ''system'', Content = ''You are helpful.'', ToolCalls = [], ToolCallId = ''''\<rparr>,
              \<lparr>Role = ''user'', Content = ''2+2?'', ToolCalls = [], ToolCallId = ''''\<rparr>,
              \<lparr>Role = ''assistant'', Content = ''4'', ToolCalls = [ex_call ''{}''], ToolCallId = ''''\<rparr>,
              \<lparr>Role = ''tool'', Content = ''[]'', ToolCalls = [], ToolCallId = ''call_1''\<rparr>],
           MaxTokens = None, Stream = False,
           Tools = tools (ex_agent ex_tool_then_final_gateway 10)\<rparr>],
       tool_execs = [ex_call ''{}'']\<rparr>)"
  by (simp add: Let_def ex_agent_eq Run_def Run_loop.simps executeToolCall_def GetServerForTool_def
      CallTool_def ex_client_def ex_manager_def ex_search_def ex_tool_then_final_gateway_def
      ex_reply_def ex_call_def ex_env_def)

theorem tool_messages_answer_tool_calls_witness:
  "\<exists>turns.
     messages (snd (Run (ex_agent ex_tool_then_final_gateway 10) ex_env ''2+2?'' 0)) =
       [\<lparr>Role = ''system'', Content = ''You are helpful.'', ToolCalls = [], ToolCallId = ''''\<rparr>,
        \<lparr>Role = ''user'', Content = ''2+2?'', ToolCalls = [], ToolCallId = ''''\<rparr>] @
       concat (map turn_messages turns) \<and>
     (\<forall>t\<in>set turns. length (snd t) = length (ToolCalls (fst t)))"
proof -
  let ?a = "ex_agent ex_tool_then_final_gateway 10"
  let ?out = "Run ?a ex_env ''2+2?'' 0"
  have r: "?out = (fst ?out, snd ?out)" by simp
  have ok: "\<forall>n j c. fst ?out \<noteq> Inl (FailedToExecuteTool n j c)"
    by (simp add: ex_run_tool_then_final)
  have s: "systemPrompt ?a = ''You are helpful.''" by (simp add: ex_agent_eq)
  from tool_messages_answer_tool_calls[OF r] ok s show ?thesis by auto
qed

lemma ex_run_two_calls:
  "Run (ex_agent ex_two_calls_gateway 10) ex_env ''2+2?'' 0 =
     (Inl (FailedToExecuteTool ''web_search'' 1
             (FailedToParseToolArguments (External ''invalid character''))),
      \<lparr>messages =
         [\<lparr>Role = ''system'', Content = ''You are helpful.'', ToolCalls = [], ToolCallId = ''''\<rparr>,
          \<lparr>Role = ''user'', Content = ''2+2?'', ToolCalls = [], ToolCallId = ''''\<rparr>,
          \<lparr>Role = ''assistant'', Content = ''4'', ToolCalls = [ex_call ''{}'', ex_call_2],
            ToolCallId = ''''\<rparr>,
          \<lparr>Role = ''tool'', Content = ''[]'', ToolCalls = [], ToolCallId = ''call_1''\<rparr>],
       world = 2,
       model_calls =
         [\<lparr>req_Model = '''',
           Messages =
             [\<lparr>Role = ''system'', Content = ''You are helpful.'', ToolCalls = [], ToolCallId = ''''\<rparr>,
              \<lparr>Role = ''user'', Content = ''2+2?'', ToolCalls = [], ToolCallId = ''''\<rparr>],
           MaxTokens = None, Stream = False,
           Tools = tools (ex_agent ex_two_calls_gateway 10)\<rparr>],
       tool_execs = [ex_call ''{}'', ex_call_2]\<rparr>)"
  by (simp add: Let_def ex_agent_eq Run_def Run_loop.simps executeToolCall_def GetServerForTool_def
      CallTool_def ex_client_def ex_manager_def ex_search_def ex_two_calls_gateway_def
      ex_reply_def ex_call_def ex_call_2_def ex_env_def)

text \<open>
  A run in which the model asks for two tool calls and the arguments of the second are
  not JSON: \<open>Run\<close> returns the error after the first tool message, so the assistant message
  with two tool calls is followed by one tool message, and the conversation is not a
  sequence of turns that each answer all their calls.
\<close>

theorem failed_tool_call_leaves_calls_unanswered:
  "fst (Run (ex_agent ex_two_calls_gateway 10) ex_env ''2+2?'' 0) =
     Inl (FailedToExecuteTool ''web_search'' 1
            (FailedToParseToolArguments (External ''invalid character''))) \<and>
   messages (snd (Run (ex_agent ex_two_calls_gateway 10) ex_env ''2+2?'' 0)) =
     [\<lparr>Role = ''system'', Content = ''You are helpful.'', ToolCalls = [], ToolCallId = ''''\<rparr>,
      \<lparr>Role = ''user'', Content = ''2+2?'', ToolCalls = [], ToolCallId = ''''\<rparr>,
      \<lparr>Role = ''assistant'', Content = ''4'', ToolCalls = [ex_call ''{}'', ex_call_2],
        ToolCallId = ''''\<rparr>,
      \<lparr>Role = ''tool'', Content = ''[]'', ToolCalls = [], ToolCallId = ''call_1''\<rparr>] \<and>
   \<not> (\<exists>turns.
         messages (snd (Run (ex_agent ex_two_calls_gateway 10) ex_env ''2+2?'' 0)) =
           [\<lparr>Role = ''system'', Content = ''You are helpful.'', ToolCalls = [], ToolCallId = ''''\<rparr>,
            \<lparr>Role = ''user'', Content = ''2+2?'', ToolCalls = [], ToolCallId = ''''\<rparr>] @
           concat (map turn_messages turns) \<and>
         (\<forall>t\<in>set turns. length (snd t) = length (ToolCalls (fst t))))"
proof -
  let ?am = "\<lparr>Role = ''assistant'', Content = ''4'', ToolCalls = [ex_call ''{}'', ex_call_2],
        ToolCallId = ''''\<rparr>"
  let ?tm = "\<lparr>Role = ''tool'', Content = ''[]'', ToolCalls = [], ToolCallId = ''call_1''\<rparr>"
  have "False"
    if c: "[?am, ?tm] = concat (map turn_messages turns)"
      and l: "\<forall>t\<in>set turns. length (snd t) = length (ToolCalls (fst t))"
    for turns
  proof (cases turns)
    case Nil
    with c show False by simp
  next
    case (Cons t ts)
    obtain am rs where t: "t = (am, rs)" by (cases t)
    from c Cons t have am: "am = ?am"
      by (simp add: turn_messages_Pair)
    from l Cons t am have "length rs = 2" by simp
    then have "length (turn_messages t) = 3"
      by (simp add: t am turn_messages_Pair)
    moreover from c Cons have "[?am, ?tm] = turn_messages t @ concat (map turn_messages ts)"
      by simp
    then have "length [?am, ?tm] = length (turn_messages t) + length (concat (map turn_messages ts))"
      by (simp only: length_append)
    ultimately show False by simp
  qed
  then show ?thesis
    by (auto simp: ex_run_two_calls)
qed

end
